theory Spec2Isabelle
  imports Main
begin

section \<open>Python values and exceptions\<close>

text \<open>
  The exceptions the interpreter can raise or propagate.  \<open>DanglingReference\<close> does not
  exist in Python: it is what the model answers when a reference points at no allocated
  dictionary, which a Python reference never does.  \<open>UnboundVariable\<close> is the spec's
  name for the failure of an environment lookup.
\<close>

datatype error =
    AttributeError
  | NotImplementedError
  | ValueError
  | TypeError
  | IndexError
  | KeyError
  | UnboundVariable
  | CollaboratorError
  | DanglingReference

datatype val = VInt int | VBool bool | VNone

text \<open>Python's \<open>bool(v)\<close>, as used by \<open>while\<close> and \<open>if\<close>.\<close>

fun truthy :: "val \<Rightarrow> bool" where
  "truthy (VInt i) = (i \<noteq> 0)"
| "truthy (VBool b) = b"
| "truthy VNone = False"

section \<open>The execution state and the interpreter object\<close>

text \<open>
  \<open>self.stateref\<close> is either \<open>None\<close> or a reference to a dictionary with the two
  entries \<open>"state"\<close> and \<open>"key"\<close>.  The dictionaries live in a store; a reference is an
  index into it, and allocating a dictionary appends it, so that a new dictionary never
  aliases an old one.  Interpreter objects are passed by value: \<open>copy(self)\<close> is only ever
  referenced by the temporary that \<open>eval\<close> is called on.  The record is the object as
  \<open>__init__\<close> leaves it.

  Modelled from the spec: the class \<open>Shots\<close> of \<open>pennylane/measurements\<close>, which is
  not among the sources.  The shots configuration is "either analytic (no finite sample
  count) or a finite positive integer count": \<open>None\<close> or \<open>Some n\<close>.
\<close>

type_synonym addr = nat

record ('s, 'k) box =
  box_state :: 's
  box_key :: 'k

record 'k interpreter =
  num_wires :: nat
  shots :: "nat option"
  initial_key :: 'k
  stateref :: "addr option"

text \<open>
  The mutable world outside the interpreter object: the store of dictionaries and the
  global switch of \<open>pennylane.capture\<close> that \<open>enable()\<close> and \<open>disable()\<close> set.
\<close>

record ('s, 'k) world =
  heap :: "('s, 'k) box list"
  capture_enabled :: bool

definition lookup_box :: "('s, 'k) world \<Rightarrow> addr \<Rightarrow> error + ('s, 'k) box" where
  "lookup_box w a = (if a < length (heap w) then Inr (heap w ! a) else Inl DanglingReference)"

text \<open>
  \<^verbatim>\<open>
  @property
  def state(self):
      return self.stateref["state"] if self.stateref else None
  @state.setter
  def state(self, value):
      if self.stateref is None:
          raise AttributeError("execution not yet initialized.")
      self.stateref["state"] = value
  \<close>
\<close>

definition state_getter :: "'k interpreter \<Rightarrow> ('s, 'k) world \<Rightarrow> error + 's option" where
  "state_getter self w =
     (case stateref self of
        None \<Rightarrow> Inr None
      | Some a \<Rightarrow>
          (case lookup_box w a of
             Inl e \<Rightarrow> Inl e
           | Inr b \<Rightarrow> Inr (Some (box_state b))))"

definition state_setter ::
  "'k interpreter \<Rightarrow> 's \<Rightarrow> ('s, 'k) world \<Rightarrow> (error + unit) \<times> ('s, 'k) world" where
  "state_setter self v w =
     (case stateref self of
        None \<Rightarrow> (Inl AttributeError, w)
      | Some a \<Rightarrow>
          (case lookup_box w a of
             Inl e \<Rightarrow> (Inl e, w)
           | Inr b \<Rightarrow> (Inr (), w\<lparr>heap := (heap w)[a := b\<lparr>box_state := v\<rparr>]\<rparr>)))"

text \<open>
  \<^verbatim>\<open>
  @property
  def key(self):
      return self.stateref["key"] if self.stateref else self.initial_key
  @key.setter
  def key(self, value):
      if self.stateref is None:
          raise AttributeError("execution not yet initialized.")
      self.stateref["key"] = value
  \<close>
\<close>

definition key_getter :: "'k interpreter \<Rightarrow> ('s, 'k) world \<Rightarrow> error + 'k" where
  "key_getter self w =
     (case stateref self of
        None \<Rightarrow> Inr (initial_key self)
      | Some a \<Rightarrow>
          (case lookup_box w a of
             Inl e \<Rightarrow> Inl e
           | Inr b \<Rightarrow> Inr (box_key b)))"

definition key_setter ::
  "'k interpreter \<Rightarrow> 'k \<Rightarrow> ('s, 'k) world \<Rightarrow> (error + unit) \<times> ('s, 'k) world" where
  "key_setter self v w =
     (case stateref self of
        None \<Rightarrow> (Inl AttributeError, w)
      | Some a \<Rightarrow>
          (case lookup_box w a of
             Inl e \<Rightarrow> (Inl e, w)
           | Inr b \<Rightarrow> (Inr (), w\<lparr>heap := (heap w)[a := b\<lparr>box_key := v\<rparr>]\<rparr>)))"

section \<open>Collaborators\<close>

text \<open>
  What the interpreter hands to its collaborators: an operation, a terminal measurement
  and the \<open>MidMeasureMP\<close> built by the handler of \<open>measure_prim\<close>.
\<close>

datatype operation = Operation string "val list"

datatype measurement = Measurement string "val list"

datatype mid_measure = MidMeasureMP "val list" bool "int option"

text \<open>
  The functions the module imports and does not define: \<open>create_initial_state\<close>,
  \<open>apply_operation\<close> (once as called by \<open>interpret_operation\<close>, once as called with
  \<open>mid_measurements\<close> and \<open>prng_key\<close>, where it also fills the dictionary of outcomes),
  \<open>measure\<close> (here \<open>measure_mp\<close>), \<open>measure_with_samples\<close> and
  \<open>jax.random.split(key, 2)\<close>.  They are
  parameters of the model.  The state they receive is the value of \<open>self.state\<close>, which
  is \<open>None\<close> while there is no execution state.  The two measurement functions also
  receive the capture switch as it stands when they are called.
\<close>

record ('s, 'k) collaborators =
  create_initial_state :: "nat \<Rightarrow> 's"
  apply_operation :: "operation \<Rightarrow> 's option \<Rightarrow> error + 's"
  apply_mid_measure ::
    "mid_measure \<Rightarrow> 's option \<Rightarrow> 'k \<Rightarrow> error + ('s \<times> (mid_measure \<Rightarrow> val option))"
  measure_mp :: "bool \<Rightarrow> measurement \<Rightarrow> 's option \<Rightarrow> error + val"
  measure_with_samples ::
    "bool \<Rightarrow> measurement list \<Rightarrow> 's option \<Rightarrow> nat \<Rightarrow> 'k \<Rightarrow> error + val list"
  random_split :: "'k \<Rightarrow> 'k \<times> 'k"

section \<open>Set-up, clean-up, operations and measurements\<close>

text \<open>
  \<^verbatim>\<open>
  def setup(self):
      if self.stateref is None:
          self.stateref = {
              "state": create_initial_state(range(self.num_wires), like="jax"),
              "key": self.initial_key,
          }
      # else set by copying a parent interpreter and we need to modify same stateref
  \<close>
  (\<open>setup\<close> in the source; the name is taken in Isabelle.)
\<close>

definition setup_box ::
  "('s, 'k) collaborators \<Rightarrow> 'k interpreter \<Rightarrow> ('s, 'k) world
     \<Rightarrow> 'k interpreter \<times> ('s, 'k) world" where
  "setup_box co self w =
     (case stateref self of
        None \<Rightarrow>
          (self\<lparr>stateref := Some (length (heap w))\<rparr>,
           w\<lparr>heap := heap w @
              [\<lparr>box_state = create_initial_state co (num_wires self),
                box_key = initial_key self\<rparr>]\<rparr>)
      | Some a \<Rightarrow> (self, w))"

text \<open>
  \<^verbatim>\<open>
  def cleanup(self):
      self.initial_key = self.key
      self.stateref = None
  \<close>
\<close>

definition cleanup :: "'k interpreter \<Rightarrow> ('s, 'k) world \<Rightarrow> error + 'k interpreter" where
  "cleanup self w =
     (case key_getter self w of
        Inl e \<Rightarrow> Inl e
      | Inr k \<Rightarrow> Inr (self\<lparr>initial_key := k, stateref := None\<rparr>))"

text \<open>\<^verbatim>\<open>self.state = apply_operation(op, self.state)\<close>\<close>

definition interpret_operation ::
  "('s, 'k) collaborators \<Rightarrow> 'k interpreter \<Rightarrow> operation \<Rightarrow> ('s, 'k) world
     \<Rightarrow> (error + unit) \<times> ('s, 'k) world" where
  "interpret_operation co self op w =
     (case state_getter self w of
        Inl e \<Rightarrow> (Inl e, w)
      | Inr s \<Rightarrow>
          (case apply_operation co op s of
             Inl e \<Rightarrow> (Inl e, w)
           | Inr s' \<Rightarrow> state_setter self s' w))"

definition disable :: "('s, 'k) world \<Rightarrow> ('s, 'k) world" where
  "disable w = w\<lparr>capture_enabled := False\<rparr>"

definition enable :: "('s, 'k) world \<Rightarrow> ('s, 'k) world" where
  "enable w = w\<lparr>capture_enabled := True\<rparr>"

text \<open>
  The body of the \<open>try\<close> block of \<open>interpret_measurement\<close>.  \<open>if self.shots\<close> is the
  truth value of a \<open>Shots\<close> object, which is false exactly when no shots are set.
  \<^verbatim>\<open>
  if self.shots:
      self.key, new_key = jax.random.split(self.key, 2)
      output = measure_with_samples(
          [measurement], self.state, shots=self.shots, prng_key=new_key
      )[0]
  else:
      output = measure(measurement, self.state)
  \<close>
\<close>

definition interpret_measurement_try ::
  "('s, 'k) collaborators \<Rightarrow> 'k interpreter \<Rightarrow> measurement \<Rightarrow> ('s, 'k) world
     \<Rightarrow> (error + val) \<times> ('s, 'k) world" where
  "interpret_measurement_try co self m w =
     (case shots self of
        Some n \<Rightarrow>
          (case key_getter self w of
             Inl e \<Rightarrow> (Inl e, w)
           | Inr k \<Rightarrow>
               (case random_split co k of
                  (k1, new_key) \<Rightarrow>
                    (case key_setter self k1 w of
                       (Inl e, w1) \<Rightarrow> (Inl e, w1)
                     | (Inr _, w1) \<Rightarrow>
                         (case state_getter self w1 of
                            Inl e \<Rightarrow> (Inl e, w1)
                          | Inr s \<Rightarrow>
                              (case measure_with_samples co (capture_enabled w1) [m] s n new_key of
                                 Inl e \<Rightarrow> (Inl e, w1)
                               | Inr [] \<Rightarrow> (Inl IndexError, w1)
                               | Inr (output # _) \<Rightarrow> (Inr output, w1))))))
      | None \<Rightarrow>
          (case state_getter self w of
             Inl e \<Rightarrow> (Inl e, w)
           | Inr s \<Rightarrow>
               (case measure_mp co (capture_enabled w) m s of
                  Inl e \<Rightarrow> (Inl e, w)
                | Inr output \<Rightarrow> (Inr output, w))))"

text \<open>
  \<^verbatim>\<open>
  def interpret_measurement(self, measurement):
      disable()
      try:
          ...
      finally:
          enable()
      return output
  \<close>
  The \<open>finally\<close> clause runs whether the block returned or raised.
\<close>

definition interpret_measurement ::
  "('s, 'k) collaborators \<Rightarrow> 'k interpreter \<Rightarrow> measurement \<Rightarrow> ('s, 'k) world
     \<Rightarrow> (error + val) \<times> ('s, 'k) world" where
  "interpret_measurement co self m w =
     (case interpret_measurement_try co self m (disable w) of
        (r, w') \<Rightarrow> (r, enable w'))"

text \<open>
  The handler registered for \<open>measure_prim\<close>.
  \<^verbatim>\<open>
  def _(self, *invals, reset, postselect):
      mp = MidMeasureMP(invals, reset=reset, postselect=postselect)
      self.key, new_key = jax.random.split(self.key, 2)
      mcms = {}
      self.state = apply_operation(mp, self.state, mid_measurements=mcms, prng_key=new_key)
      return mcms[mp]
  \<close>
\<close>

definition measure_prim ::
  "('s, 'k) collaborators \<Rightarrow> 'k interpreter \<Rightarrow> val list \<Rightarrow> bool \<Rightarrow> int option
     \<Rightarrow> ('s, 'k) world \<Rightarrow> (error + val) \<times> ('s, 'k) world" where
  "measure_prim co self invals reset postselect w =
     (let mp = MidMeasureMP invals reset postselect in
      case key_getter self w of
        Inl e \<Rightarrow> (Inl e, w)
      | Inr k \<Rightarrow>
          (case random_split co k of
             (k1, new_key) \<Rightarrow>
               (case key_setter self k1 w of
                  (Inl e, w1) \<Rightarrow> (Inl e, w1)
                | (Inr _, w1) \<Rightarrow>
                    (case state_getter self w1 of
                       Inl e \<Rightarrow> (Inl e, w1)
                     | Inr s \<Rightarrow>
                         (case apply_mid_measure co mp s new_key of
                            Inl e \<Rightarrow> (Inl e, w1)
                          | Inr (s', mcms) \<Rightarrow>
                              (case state_setter self s' w1 of
                                 (Inl e, w2) \<Rightarrow> (Inl e, w2)
                               | (Inr _, w2) \<Rightarrow>
                                   (case mcms mp of
                                      None \<Rightarrow> (Inl KeyError, w2)
                                    | Some outcome \<Rightarrow> (Inr outcome, w2))))))))"

section \<open>Programs\<close>

text \<open>
  A program (a jaxpr) has constant variables, input variables, equations and outputs.  An
  equation names a primitive with its static parameters, its inputs (variables or
  literals) and the variables it binds.  The parameters of the control-flow primitives
  hold the nested programs and the slices that cut the inputs into constants and
  arguments.
\<close>

type_synonym var = nat

datatype atom = Var var | Literal val

datatype pslice = Slice "int option" "int option"

datatype jaxpr =
    Jaxpr (constvars: "var list") (invars: "var list") (eqns: "eqn list") (outvars: "atom list")
and eqn =
    Eqn (primitive: prim) (eqn_invars: "atom list") (eqn_outvars: "var list")
and prim =
    OperatorPrim string
  | MeasurementPrim string
  | MeasurePrim bool "int option"
  | AdjointTransformPrim
  | CtrlTransformPrim
  | ForLoopPrim jaxpr pslice pslice
  | WhileLoopPrim jaxpr jaxpr pslice pslice pslice
  | CondPrim "jaxpr option list" "pslice list" pslice

text \<open>
  \<open>xs[s]\<close> for a slice without a step: a bound that is negative counts from the end, and
  both bounds are clamped to the sequence.
\<close>

fun py_slice :: "'a list \<Rightarrow> pslice \<Rightarrow> 'a list" where
  "py_slice xs (Slice start stop) =
     (let n = int (length xs);
          clamp = (\<lambda>i. if i < 0 then max (n + i) 0 else min i n);
          lo = (case start of None \<Rightarrow> 0 | Some i \<Rightarrow> clamp i);
          hi = (case stop of None \<Rightarrow> n | Some i \<Rightarrow> clamp i)
      in take (nat (hi - lo)) (drop (nat lo) xs))"

text \<open>
  \<open>range(start, stop, step)\<close>: the arguments are read as integers (a \<open>bool\<close> is one,
  \<open>None\<close> is a \<open>TypeError\<close>), a step of zero is a \<open>ValueError\<close>, and the length is
  computed as CPython does.
\<close>

fun py_index :: "val \<Rightarrow> error + int" where
  "py_index (VInt i) = Inr i"
| "py_index (VBool b) = Inr (if b then 1 else 0)"
| "py_index VNone = Inl TypeError"

definition range_length :: "int \<Rightarrow> int \<Rightarrow> int \<Rightarrow> nat" where
  "range_length lo hi step =
     (if 0 < step \<and> lo < hi then nat ((hi - lo - 1) div step + 1)
      else if step < 0 \<and> hi < lo then nat ((lo - hi - 1) div (- step) + 1)
      else 0)"

definition py_range :: "val \<Rightarrow> val \<Rightarrow> val \<Rightarrow> error + int list" where
  "py_range start stop step =
     (case py_index start of
        Inl e \<Rightarrow> Inl e
      | Inr lo \<Rightarrow>
          (case py_index stop of
             Inl e \<Rightarrow> Inl e
           | Inr hi \<Rightarrow>
               (case py_index step of
                  Inl e \<Rightarrow> Inl e
                | Inr st \<Rightarrow>
                    if st = 0 then Inl ValueError
                    else Inr (map (\<lambda>n. lo + int n * st) [0..<range_length lo hi st]))))"

section \<open>Control flow\<close>

text \<open>
  \<open>copy(self)\<close> is a shallow copy: a new interpreter object whose attributes are those of
  \<open>self\<close>; \<open>stateref\<close> is copied as a reference, the dictionary is not duplicated.
\<close>

definition py_copy :: "'k interpreter \<Rightarrow> 'k interpreter" where
  "py_copy self =
     \<lparr>num_wires = num_wires self, shots = shots self,
      initial_key = initial_key self, stateref = stateref self\<rparr>"

text \<open>
  \<open>eval\<close> is inherited from \<open>PlxprInterpreter\<close>.  The handlers take it as the parameter
  \<open>ev\<close>: called on an interpreter object, a program, constants and arguments, it
  returns the outputs or raises, leaves the interpreter object and the world changed,
  or does not return (\<open>None\<close>).
\<close>

type_synonym ('s, 'k) evaluator =
  "'k interpreter \<Rightarrow> jaxpr \<Rightarrow> val list \<Rightarrow> val list \<Rightarrow> ('s, 'k) world
     \<Rightarrow> ((error + val list) \<times> 'k interpreter \<times> ('s, 'k) world) option"

text \<open>
  The handler registered for \<open>for_loop_prim\<close>.
  \<^verbatim>\<open>
  def _(self, start, stop, step, *invals, jaxpr_body_fn, consts_slice, args_slice):
      consts = invals[consts_slice]
      init_state = invals[args_slice]
      res = init_state
      for i in range(start, stop, step):
          res = copy(self).eval(jaxpr_body_fn, consts, i, *res)
      return res
  \<close>
  \<open>for_loop_iter\<close> is the loop over the indices, \<open>for_loop_prim\<close> the handler.
\<close>

fun for_loop_iter ::
  "('s, 'k) evaluator \<Rightarrow> 'k interpreter \<Rightarrow> jaxpr \<Rightarrow> val list \<Rightarrow> int list \<Rightarrow> val list
     \<Rightarrow> ('s, 'k) world \<Rightarrow> ((error + val list) \<times> ('s, 'k) world) option" where
  "for_loop_iter ev self jaxpr_body_fn consts [] res w = Some (Inr res, w)"
| "for_loop_iter ev self jaxpr_body_fn consts (i # is) res w =
     (case ev (py_copy self) jaxpr_body_fn consts (VInt i # res) w of
        None \<Rightarrow> None
      | Some (Inl e, _, w') \<Rightarrow> Some (Inl e, w')
      | Some (Inr res', _, w') \<Rightarrow> for_loop_iter ev self jaxpr_body_fn consts is res' w')"

definition for_loop_prim ::
  "('s, 'k) evaluator \<Rightarrow> 'k interpreter \<Rightarrow> val \<Rightarrow> val \<Rightarrow> val \<Rightarrow> val list
     \<Rightarrow> jaxpr \<Rightarrow> pslice \<Rightarrow> pslice
     \<Rightarrow> ('s, 'k) world \<Rightarrow> ((error + val list) \<times> ('s, 'k) world) option" where
  "for_loop_prim ev self start stop step invals jaxpr_body_fn consts_slice args_slice w =
     (let consts = py_slice invals consts_slice;
          init_state = py_slice invals args_slice
      in case py_range start stop step of
           Inl e \<Rightarrow> Some (Inl e, w)
         | Inr is \<Rightarrow> for_loop_iter ev self jaxpr_body_fn consts is init_state w)"

text \<open>
  The handler registered for \<open>while_loop_prim\<close>.
  \<^verbatim>\<open>
  def _(self, *invals, jaxpr_body_fn, jaxpr_cond_fn, body_slice, cond_slice, args_slice):
      consts_body = invals[body_slice]
      consts_cond = invals[cond_slice]
      init_state = invals[args_slice]
      fn_res = init_state
      while copy(self).eval(jaxpr_cond_fn, consts_cond, *fn_res)[0]:
          fn_res = copy(self).eval(jaxpr_body_fn, consts_body, *fn_res)
      return fn_res
  \<close>
  The loop need not end: \<open>while_loop_iter\<close> is \<open>None\<close> when it does not.
\<close>

partial_function (option) while_loop_iter ::
  "('s, 'k) evaluator \<Rightarrow> 'k interpreter \<Rightarrow> jaxpr \<Rightarrow> jaxpr \<Rightarrow> val list \<Rightarrow> val list \<Rightarrow> val list
     \<Rightarrow> ('s, 'k) world \<Rightarrow> ((error + val list) \<times> ('s, 'k) world) option" where
  "while_loop_iter ev self jaxpr_body_fn jaxpr_cond_fn consts_body consts_cond fn_res w =
     (case ev (py_copy self) jaxpr_cond_fn consts_cond fn_res w of
        None \<Rightarrow> None
      | Some (Inl e, _, w1) \<Rightarrow> Some (Inl e, w1)
      | Some (Inr [], _, w1) \<Rightarrow> Some (Inl IndexError, w1)
      | Some (Inr (c # _), _, w1) \<Rightarrow>
          if truthy c then
            (case ev (py_copy self) jaxpr_body_fn consts_body fn_res w1 of
               None \<Rightarrow> None
             | Some (Inl e, _, w2) \<Rightarrow> Some (Inl e, w2)
             | Some (Inr fn_res', _, w2) \<Rightarrow>
                 while_loop_iter ev self jaxpr_body_fn jaxpr_cond_fn consts_body consts_cond
                   fn_res' w2)
          else Some (Inr fn_res, w1))"

declare while_loop_iter.simps [code]

definition while_loop_prim ::
  "('s, 'k) evaluator \<Rightarrow> 'k interpreter \<Rightarrow> val list
     \<Rightarrow> jaxpr \<Rightarrow> jaxpr \<Rightarrow> pslice \<Rightarrow> pslice \<Rightarrow> pslice
     \<Rightarrow> ('s, 'k) world \<Rightarrow> ((error + val list) \<times> ('s, 'k) world) option" where
  "while_loop_prim ev self invals jaxpr_body_fn jaxpr_cond_fn body_slice cond_slice args_slice w =
     (let consts_body = py_slice invals body_slice;
          consts_cond = py_slice invals cond_slice;
          init_state = py_slice invals args_slice
      in while_loop_iter ev self jaxpr_body_fn jaxpr_cond_fn consts_body consts_cond
           init_state w)"

text \<open>
  The handler registered for \<open>cond_prim\<close>.
  \<^verbatim>\<open>
  def _(self, *invals, jaxpr_branches, consts_slices, args_slice):
      n_branches = len(jaxpr_branches)
      conditions = invals[:n_branches]
      args = invals[args_slice]
      for pred, jaxpr, const_slice in zip(conditions, jaxpr_branches, consts_slices):
          consts = invals[const_slice]
          if pred and jaxpr is not None:
              return copy(self).eval(jaxpr, consts, *args)
      return ()
  \<close>
  \<open>cond_branches\<close> is the loop over the zipped branches, \<open>cond_prim\<close> the handler.
\<close>

fun cond_branches ::
  "('s, 'k) evaluator \<Rightarrow> 'k interpreter \<Rightarrow> val list \<Rightarrow> val list
     \<Rightarrow> (val \<times> jaxpr option \<times> pslice) list
     \<Rightarrow> ('s, 'k) world \<Rightarrow> ((error + val list) \<times> ('s, 'k) world) option" where
  "cond_branches ev self invals args [] w = Some (Inr [], w)"
| "cond_branches ev self invals args ((pred, jaxpr, const_slice) # rest) w =
     (let consts = py_slice invals const_slice
      in case (truthy pred, jaxpr) of
           (True, Some j) \<Rightarrow>
             (case ev (py_copy self) j consts args w of
                None \<Rightarrow> None
              | Some (r, _, w') \<Rightarrow> Some (r, w'))
         | _ \<Rightarrow> cond_branches ev self invals args rest w)"

definition cond_prim ::
  "('s, 'k) evaluator \<Rightarrow> 'k interpreter \<Rightarrow> val list
     \<Rightarrow> jaxpr option list \<Rightarrow> pslice list \<Rightarrow> pslice
     \<Rightarrow> ('s, 'k) world \<Rightarrow> ((error + val list) \<times> ('s, 'k) world) option" where
  "cond_prim ev self invals jaxpr_branches consts_slices args_slice w =
     (let n_branches = length jaxpr_branches;
          conditions = take n_branches invals;
          args = py_slice invals args_slice
      in cond_branches ev self invals args
           (zip conditions (zip jaxpr_branches consts_slices)) w)"

text \<open>
  The handlers registered for \<open>adjoint_transform_prim\<close> and \<open>ctrl_transform_prim\<close>:
  both are \<^verbatim>\<open>raise NotImplementedError\<close>.
\<close>

definition adjoint_transform_prim ::
  "'k interpreter \<Rightarrow> val list \<Rightarrow> ('s, 'k) world \<Rightarrow> (error + val list) \<times> ('s, 'k) world" where
  "adjoint_transform_prim self invals w = (Inl NotImplementedError, w)"

definition ctrl_transform_prim ::
  "'k interpreter \<Rightarrow> val list \<Rightarrow> ('s, 'k) world \<Rightarrow> (error + val list) \<times> ('s, 'k) world" where
  "ctrl_transform_prim self invals w = (Inl NotImplementedError, w)"

section \<open>The evaluator\<close>

text \<open>
  \<^verbatim>\<open>
  def interpret_measurement_eqn(self, eqn):
      if "mcm" in eqn.primitive.name:
          raise NotImplementedError(...)
      return super().interpret_measurement_eqn(eqn)
  \<close>
  \<open>is_substring p s\<close> is Python's \<open>p in s\<close> on strings.
\<close>

fun is_prefix :: "string \<Rightarrow> string \<Rightarrow> bool" where
  "is_prefix [] s = True"
| "is_prefix (c # p) [] = False"
| "is_prefix (c # p) (d # s) = (c = d \<and> is_prefix p s)"

fun is_substring :: "string \<Rightarrow> string \<Rightarrow> bool" where
  "is_substring p [] = (p = [])"
| "is_substring p (d # s) = (is_prefix p (d # s) \<or> is_substring p s)"

text \<open>
  Modelled from the spec: \<open>PlxprInterpreter.interpret_measurement_eqn\<close> of
  \<open>pennylane/capture/base_interpreter.py\<close>, which is not among the sources.  For a
  terminal measurement the evaluator "invokes the Terminal Measurement Handler and binds
  its result": the measurement is built from the primitive and the resolved inputs.
\<close>

definition super_interpret_measurement_eqn ::
  "('s, 'k) collaborators \<Rightarrow> 'k interpreter \<Rightarrow> string \<Rightarrow> val list \<Rightarrow> ('s, 'k) world
     \<Rightarrow> (error + val) \<times> ('s, 'k) world" where
  "super_interpret_measurement_eqn co self name invals w =
     interpret_measurement co self (Measurement name invals) w"

definition interpret_measurement_eqn ::
  "('s, 'k) collaborators \<Rightarrow> 'k interpreter \<Rightarrow> string \<Rightarrow> val list \<Rightarrow> ('s, 'k) world
     \<Rightarrow> (error + val) \<times> ('s, 'k) world" where
  "interpret_measurement_eqn co self name invals w =
     (if is_substring ''mcm'' name then (Inl NotImplementedError, w)
      else super_interpret_measurement_eqn co self name invals w)"

text \<open>
  Modelled from the spec: \<open>PlxprInterpreter.eval\<close> and its helpers, of
  \<open>pennylane/capture/base_interpreter.py\<close>, which is not among the sources.  The
  definitions \<open>read\<close>, \<open>read_all\<close>, \<open>bind_vars\<close>, \<open>eval_eqn\<close>, \<open>eval_eqns\<close> and
  \<open>eval\<close> follow section 4.1 of the spec.  A frame binds the constants and arguments to
  the program's input variables in a fresh environment, processes the equations in
  order and returns the values of the declared outputs.  Each equation's inputs are
  resolved, a literal to itself and a variable by a lookup that fails when the variable
  is unbound; a plain operation goes to \<open>interpret_operation\<close>, a terminal measurement
  to \<open>interpret_measurement_eqn\<close>, every other primitive to its registered handler,
  and the returned values are bound to the equation's outputs.  The execution state is
  set up when the frame is entered and cleaned up when it completes; a frame that
  raises is not cleaned up.  A child frame runs on a copy of the interpreter object, so
  its clean-up detaches the copy only.  The first argument bounds the depth of nested
  frames: \<open>eval co 0\<close> is \<open>None\<close>.
\<close>

type_synonym env = "var \<Rightarrow> val option"

fun read :: "env \<Rightarrow> atom \<Rightarrow> error + val" where
  "read env (Literal v) = Inr v"
| "read env (Var x) = (case env x of None \<Rightarrow> Inl UnboundVariable | Some v \<Rightarrow> Inr v)"

fun read_all :: "env \<Rightarrow> atom list \<Rightarrow> error + val list" where
  "read_all env [] = Inr []"
| "read_all env (a # as) =
     (case read env a of
        Inl e \<Rightarrow> Inl e
      | Inr v \<Rightarrow> (case read_all env as of Inl e \<Rightarrow> Inl e | Inr vs \<Rightarrow> Inr (v # vs)))"

fun bind_vars :: "env \<Rightarrow> var list \<Rightarrow> val list \<Rightarrow> env" where
  "bind_vars env (x # xs) (v # vs) = bind_vars (env(x \<mapsto> v)) xs vs"
| "bind_vars env _ _ = env"

fun eval_eqn ::
  "('s, 'k) collaborators \<Rightarrow> ('s, 'k) evaluator \<Rightarrow> 'k interpreter \<Rightarrow> prim \<Rightarrow> val list
     \<Rightarrow> ('s, 'k) world \<Rightarrow> ((error + val list) \<times> ('s, 'k) world) option" where
  "eval_eqn co ev self (OperatorPrim name) invals w =
     (case interpret_operation co self (Operation name invals) w of
        (Inl e, w') \<Rightarrow> Some (Inl e, w')
      | (Inr _, w') \<Rightarrow> Some (Inr [], w'))"
| "eval_eqn co ev self (MeasurementPrim name) invals w =
     (case interpret_measurement_eqn co self name invals w of
        (Inl e, w') \<Rightarrow> Some (Inl e, w')
      | (Inr v, w') \<Rightarrow> Some (Inr [v], w'))"
| "eval_eqn co ev self (MeasurePrim reset postselect) invals w =
     (case measure_prim co self invals reset postselect w of
        (Inl e, w') \<Rightarrow> Some (Inl e, w')
      | (Inr v, w') \<Rightarrow> Some (Inr [v], w'))"
| "eval_eqn co ev self AdjointTransformPrim invals w =
     Some (adjoint_transform_prim self invals w)"
| "eval_eqn co ev self CtrlTransformPrim invals w =
     Some (ctrl_transform_prim self invals w)"
| "eval_eqn co ev self (ForLoopPrim jaxpr_body_fn consts_slice args_slice) invals w =
     (case invals of
        start # stop # step # rest \<Rightarrow>
          for_loop_prim ev self start stop step rest jaxpr_body_fn consts_slice args_slice w
      | _ \<Rightarrow> Some (Inl TypeError, w))"
| "eval_eqn co ev self
       (WhileLoopPrim jaxpr_body_fn jaxpr_cond_fn body_slice cond_slice args_slice) invals w =
     while_loop_prim ev self invals jaxpr_body_fn jaxpr_cond_fn body_slice cond_slice
       args_slice w"
| "eval_eqn co ev self (CondPrim jaxpr_branches consts_slices args_slice) invals w =
     cond_prim ev self invals jaxpr_branches consts_slices args_slice w"

fun eval_eqns ::
  "('s, 'k) collaborators \<Rightarrow> ('s, 'k) evaluator \<Rightarrow> 'k interpreter \<Rightarrow> env \<Rightarrow> eqn list
     \<Rightarrow> ('s, 'k) world \<Rightarrow> ((error + env) \<times> ('s, 'k) world) option" where
  "eval_eqns co ev self env [] w = Some (Inr env, w)"
| "eval_eqns co ev self env (Eqn p ins outs # rest) w =
     (case read_all env ins of
        Inl e \<Rightarrow> Some (Inl e, w)
      | Inr invals \<Rightarrow>
          (case eval_eqn co ev self p invals w of
             None \<Rightarrow> None
           | Some (Inl e, w') \<Rightarrow> Some (Inl e, w')
           | Some (Inr outvals, w') \<Rightarrow>
               eval_eqns co ev self (bind_vars env outs outvals) rest w'))"

primrec eval :: "('s, 'k) collaborators \<Rightarrow> nat \<Rightarrow> ('s, 'k) evaluator" where
  "eval co 0 = (\<lambda>self jaxpr consts args w. None)"
| "eval co (Suc n) = (\<lambda>self jaxpr consts args w.
     (case setup_box co self w of
        (self1, w1) \<Rightarrow>
          (let env = bind_vars (bind_vars Map.empty (invars jaxpr) args) (constvars jaxpr) consts
           in case eval_eqns co (eval co n) self1 env (eqns jaxpr) w1 of
                None \<Rightarrow> None
              | Some (Inl e, w2) \<Rightarrow> Some (Inl e, self1, w2)
              | Some (Inr env', w2) \<Rightarrow>
                  (case read_all env' (outvars jaxpr) of
                     Inl e \<Rightarrow> Some (Inl e, self1, w2)
                   | Inr outvals \<Rightarrow>
                       (case cleanup self1 w2 of
                          Inl e \<Rightarrow> Some (Inl e, self1, w2)
                        | Inr self2 \<Rightarrow> Some (Inr outvals, self2, w2))))))"

section \<open>The control-flow handlers as the spec words them\<close>

text \<open>
  The bounded loop in the spec's words (section 4.2): "for \<open>i\<close> from \<open>start\<close> to
  \<open>stop\<close> (exclusive) in steps of \<open>step\<close>, evaluate the body sub-program in a new
  child frame with inputs \<open>(constants, i, *carried)\<close>, and set \<open>carried\<close> to the body's
  returned outputs for the next iteration.  Terminal value: the carried arguments after
  the last iteration (or the initial arguments if the range is empty)."  A positive step
  counts up while \<open>i < stop\<close>, a negative step counts down while \<open>stop < i\<close>; with a
  step of zero the iteration is empty, which is the spec's "valid no-op".
\<close>

function spec_bounded_loop ::
  "('s, 'k) evaluator \<Rightarrow> 'k interpreter \<Rightarrow> jaxpr \<Rightarrow> val list \<Rightarrow> int \<Rightarrow> int \<Rightarrow> int \<Rightarrow> val list
     \<Rightarrow> ('s, 'k) world \<Rightarrow> ((error + val list) \<times> ('s, 'k) world) option" where
  "spec_bounded_loop ev self body consts i stop step carried w =
     (if (0 < step \<and> i < stop) \<or> (step < 0 \<and> stop < i) then
        (case ev (py_copy self) body consts (VInt i # carried) w of
           None \<Rightarrow> None
         | Some (Inl e, _, w') \<Rightarrow> Some (Inl e, w')
         | Some (Inr carried', _, w') \<Rightarrow>
             spec_bounded_loop ev self body consts (i + step) stop step carried' w')
      else Some (Inr carried, w))"
  by pat_completeness auto
termination
  by (relation "measure (\<lambda>(ev, self, body, consts, i, stop, step, carried, w).
        if 0 < step then nat (stop - i) else nat (i - stop))") auto

text \<open>
  The multi-way branch in the spec's words (section 4.2): it "selects the first tuple
  whose predicate is true and whose body is present".
\<close>

fun spec_selected_branch ::
  "(val \<times> jaxpr option \<times> pslice) list \<Rightarrow> (jaxpr \<times> pslice) option" where
  "spec_selected_branch branches =
     (case find (\<lambda>(pred, jaxpr, const_slice). truthy pred \<and> jaxpr \<noteq> None) branches of
        Some (pred, Some jaxpr, const_slice) \<Rightarrow> Some (jaxpr, const_slice)
      | _ \<Rightarrow> None)"

section \<open>Sharing of the execution state\<close>

text \<open>
  \<open>same_box a w w'\<close>: the store of \<open>w'\<close> is the store of \<open>w\<close> except for the contents
  of the dictionary at \<open>a\<close>.  No dictionary was allocated and no other dictionary was
  written.
\<close>

definition same_box :: "addr \<Rightarrow> ('s, 'k) world \<Rightarrow> ('s, 'k) world \<Rightarrow> bool" where
  "same_box a w w' \<longleftrightarrow> a < length (heap w) \<and> heap w' = (heap w)[a := heap w' ! a]"

text \<open>
  \<open>keeps_box ev\<close>: an evaluator that is entered on an interpreter object holding a
  reference to a dictionary works on that dictionary.
\<close>

definition keeps_box :: "('s, 'k) evaluator \<Rightarrow> bool" where
  "keeps_box ev \<longleftrightarrow>
     (\<forall>self jaxpr consts args w r self' w' a.
        stateref self = Some a \<longrightarrow> a < length (heap w) \<longrightarrow>
        ev self jaxpr consts args w = Some (r, self', w') \<longrightarrow> same_box a w w')"

section \<open>Relabelling wires\<close>

text \<open>
  An operator has a name (its class and parameters), wires and, when it is composite,
  operands; a measurement process has a name, an optional observable and wires.
\<close>

datatype 'w operator =
  Operator (op_name: string) (op_wires: "'w list") (operands: "'w operator list")

datatype 'w measurement_process =
  MeasurementProcess (mp_name: string) (obs: "'w operator option") (mp_wires: "'w list")

datatype 'w qobject = Op "'w operator" | MP "'w measurement_process"

text \<open>
  Modelled from the spec: the methods \<open>Operator.map_wires\<close> and
  \<open>MeasurementProcess.map_wires\<close>, which are not among the sources.  The spec calls
  wire relabelling "a pure structural rewrite of operator/circuit wire labels with no
  runtime state", "a simple recursive substitution".  A label the wire map does not
  mention stays.
\<close>

definition relabel :: "('w \<Rightarrow> 'w option) \<Rightarrow> 'w \<Rightarrow> 'w" where
  "relabel wire_map w = (case wire_map w of None \<Rightarrow> w | Some w' \<Rightarrow> w')"

fun operator_map_wires :: "('w \<Rightarrow> 'w option) \<Rightarrow> 'w operator \<Rightarrow> 'w operator" where
  "operator_map_wires wire_map (Operator name wires ops) =
     Operator name (map (relabel wire_map) wires) (map (operator_map_wires wire_map) ops)"

fun measurement_map_wires ::
  "('w \<Rightarrow> 'w option) \<Rightarrow> 'w measurement_process \<Rightarrow> 'w measurement_process" where
  "measurement_map_wires wire_map (MeasurementProcess name ob wires) =
     MeasurementProcess name (map_option (operator_map_wires wire_map) ob)
       (map (relabel wire_map) wires)"

fun object_map_wires :: "('w \<Rightarrow> 'w option) \<Rightarrow> 'w qobject \<Rightarrow> 'w qobject" where
  "object_map_wires wire_map (Op op) = Op (operator_map_wires wire_map op)"
| "object_map_wires wire_map (MP m) = MP (measurement_map_wires wire_map m)"

text \<open>
  The queuing manager is not among the sources either: whether a queue is recording,
  \<open>QueuingManager.remove\<close> and \<open>qml.apply\<close> are parameters, over any type of queues.
\<close>

record ('w, 'q) queuing_manager =
  recording :: "'q \<Rightarrow> bool"
  qm_remove :: "'w qobject \<Rightarrow> 'q \<Rightarrow> 'q"
  qm_apply :: "'w qobject \<Rightarrow> 'q \<Rightarrow> 'q"

text \<open>
  \<open>map_wires\<close> on an \<open>Operator\<close> or a \<open>MeasurementProcess\<close>.  Every other input goes
  to the tape transform, which is not modelled.
  \<^verbatim>\<open>
  if isinstance(input, (Operator, MeasurementProcess)):
      if QueuingManager.recording():
          with QueuingManager.stop_recording():
              new_op = input.map_wires(wire_map=wire_map)
          if replace:
              QueuingManager.remove(input)
          if queue:
              qml.apply(new_op)
          return new_op
      return input.map_wires(wire_map=wire_map)
  \<close>
\<close>

definition map_wires ::
  "('w, 'q) queuing_manager \<Rightarrow> 'w qobject \<Rightarrow> ('w \<Rightarrow> 'w option) \<Rightarrow> bool \<Rightarrow> bool \<Rightarrow> 'q
     \<Rightarrow> 'w qobject \<times> 'q" where
  "map_wires qm input wire_map queue replace q =
     (if recording qm q then
        (let new_op = object_map_wires wire_map input;
             q1 = (if replace then qm_remove qm input q else q);
             q2 = (if queue then qm_apply qm new_op q1 else q1)
         in (new_op, q2))
      else (object_map_wires wire_map input, q))"

section \<open>An evaluator that answers one call\<close>

text \<open>
  \<open>only_call ev self0 jaxpr0 consts0 args0 w0\<close> answers the one call on these arguments
  as \<open>ev\<close> does and returns from no other call.  A handler that returns with it has
  made no other call.
\<close>

definition only_call ::
  "('s, 'k) evaluator \<Rightarrow> 'k interpreter \<Rightarrow> jaxpr \<Rightarrow> val list \<Rightarrow> val list \<Rightarrow> ('s, 'k) world
     \<Rightarrow> ('s, 'k) evaluator" where
  "only_call ev self0 jaxpr0 consts0 args0 w0 =
     (\<lambda>self jaxpr consts args w.
        if self = self0 \<and> jaxpr = jaxpr0 \<and> consts = consts0 \<and> args = args0 \<and> w = w0
        then ev self jaxpr consts args w else None)"

section \<open>A small instance\<close>

text \<open>
  Collaborators, programs and interpreter objects on which the theorems below are
  instantiated.  The state counts what was applied to it, a key is a number, and
  splitting the key \<open>k\<close> gives \<open>2k + 1\<close> and \<open>2k + 2\<close>.  The measurement functions fail
  when they are called while capture is enabled.
\<close>

definition example_collaborators :: "(nat, nat) collaborators" where
  "example_collaborators =
     \<lparr>create_initial_state = (\<lambda>n. 0),
      apply_operation = (\<lambda>op s. case s of None \<Rightarrow> Inl TypeError | Some x \<Rightarrow> Inr (x + 1)),
      apply_mid_measure = (\<lambda>mp s k. case s of
          None \<Rightarrow> Inl TypeError
        | Some x \<Rightarrow> Inr (x + 10, [mp \<mapsto> VInt (int (k mod 2))])),
      measure_mp = (\<lambda>c m s. case s of
          None \<Rightarrow> Inl TypeError
        | Some x \<Rightarrow> if c then Inl CollaboratorError else Inr (VInt (int x))),
      measure_with_samples = (\<lambda>c ms s n k. case s of
          None \<Rightarrow> Inl TypeError
        | Some x \<Rightarrow> if c then Inl CollaboratorError else Inr (map (\<lambda>m. VInt (int (x + n + k))) ms)),
      random_split = (\<lambda>k. (2 * k + 1, 2 * k + 2))\<rparr>"

definition example_body :: jaxpr where
  "example_body =
     Jaxpr [] [0, 1] [Eqn (OperatorPrim ''RX'') [Var 1, Literal (VInt 0)] []] [Var 1]"

definition example_interpreter :: "nat interpreter" where
  "example_interpreter = \<lparr>num_wires = 2, shots = None, initial_key = 5, stateref = Some 0\<rparr>"

definition example_world :: "(nat, nat) world" where
  "example_world = \<lparr>heap = [\<lparr>box_state = 0, box_key = 5\<rparr>], capture_enabled = True\<rparr>"

definition example_top_interpreter :: "nat interpreter" where
  "example_top_interpreter = \<lparr>num_wires = 2, shots = None, initial_key = 5, stateref = None\<rparr>"

definition example_program :: jaxpr where
  "example_program =
     Jaxpr [] [0]
       [Eqn (MeasurePrim False None) [Literal (VInt 0)] [1],
        Eqn (ForLoopPrim example_body (Slice (Some 0) (Some 0)) (Slice (Some 0) None))
          [Literal (VInt 0), Literal (VInt 2), Literal (VInt 1), Var 0] [2]]
       [Var 1, Var 2]"

definition example_shots_interpreter :: "nat interpreter" where
  "example_shots_interpreter = \<lparr>num_wires = 2, shots = Some 3, initial_key = 5, stateref = Some 0\<rparr>"

definition example_cond :: jaxpr where
  "example_cond = Jaxpr [] [0] [] [Var 0]"

definition example_while_body :: jaxpr where
  "example_while_body =
     Jaxpr [] [0] [Eqn (OperatorPrim ''X'') [Literal (VInt 0)] []] [Literal (VBool False)]"

definition example_branch :: jaxpr where
  "example_branch = Jaxpr [] [0] [Eqn (MeasurePrim False None) [Literal (VInt 0)] [1]] [Var 1]"

text \<open>
  A queuing manager whose queues are a recording flag and a list, and the operator of the
  docstring of \<open>map_wires\<close>.
\<close>

definition example_queuing :: "(nat, bool \<times> nat qobject list) queuing_manager" where
  "example_queuing =
     \<lparr>recording = fst,
      qm_remove = (\<lambda>x (r, xs). (r, removeAll x xs)),
      qm_apply = (\<lambda>x (r, xs). (r, xs @ [x]))\<rparr>"

definition example_operator :: "nat operator" where
  "example_operator =
     Operator ''Sum'' [0, 1, 2, 3]
       [Operator ''RX(0.54)'' [0] [], Operator ''PauliX'' [1] [],
        Operator ''Prod'' [2, 3] [Operator ''PauliZ'' [2] [], Operator ''RY(1.23)'' [3] []]]"

section \<open>Every frame works on the dictionary it was given\<close>

lemma same_box_refl: "a < length (heap w) \<Longrightarrow> same_box a w w"
  by (simp add: same_box_def)

lemma same_box_trans: "same_box a w w1 \<Longrightarrow> same_box a w1 w2 \<Longrightarrow> same_box a w w2"
  by (auto simp: same_box_def) (metis length_list_update list_update_overwrite)

lemma same_box_length: "same_box a w w' \<Longrightarrow> length (heap w') = length (heap w)"
  by (auto simp: same_box_def) (metis length_list_update)

lemma same_box_bound: "same_box a w w' \<Longrightarrow> a < length (heap w')"
  by (auto simp: same_box_def) (metis length_list_update)

lemma same_box_capture: "same_box a w w' \<Longrightarrow> same_box a w (w'\<lparr>capture_enabled := c\<rparr>)"
  by (simp add: same_box_def)

lemma same_box_capture_left: "same_box a (w\<lparr>capture_enabled := c\<rparr>) w' \<Longrightarrow> same_box a w w'"
  by (simp add: same_box_def)

lemma state_setter_same_box:
  "stateref self = Some a \<Longrightarrow> a < length (heap w) \<Longrightarrow> state_setter self v w = (r, w') \<Longrightarrow> same_box a w w'"
  by (auto simp: state_setter_def lookup_box_def same_box_def)

lemma key_setter_same_box:
  "stateref self = Some a \<Longrightarrow> a < length (heap w) \<Longrightarrow> key_setter self v w = (r, w') \<Longrightarrow> same_box a w w'"
  by (auto simp: key_setter_def lookup_box_def same_box_def)

lemma interpret_operation_same_box:
  "stateref self = Some a \<Longrightarrow> a < length (heap w) \<Longrightarrow> interpret_operation co self op w = (r, w')
     \<Longrightarrow> same_box a w w'"
  by (auto simp: interpret_operation_def same_box_refl split: sum.splits dest: state_setter_same_box)

lemma state_getter_box:
  "stateref self = Some a \<Longrightarrow> a < length (heap w) \<Longrightarrow>
     state_getter self w = Inr (Some (box_state (heap w ! a)))"
  by (simp add: state_getter_def lookup_box_def)

lemma key_getter_box:
  "stateref self = Some a \<Longrightarrow> a < length (heap w) \<Longrightarrow>
     key_getter self w = Inr (box_key (heap w ! a))"
  by (simp add: key_getter_def lookup_box_def)

lemma state_setter_box:
  "stateref self = Some a \<Longrightarrow> a < length (heap w) \<Longrightarrow>
     state_setter self v w = (Inr (), w\<lparr>heap := (heap w)[a := (heap w ! a)\<lparr>box_state := v\<rparr>]\<rparr>)"
  by (simp add: state_setter_def lookup_box_def)

lemma key_setter_box:
  "stateref self = Some a \<Longrightarrow> a < length (heap w) \<Longrightarrow>
     key_setter self v w = (Inr (), w\<lparr>heap := (heap w)[a := (heap w ! a)\<lparr>box_key := v\<rparr>]\<rparr>)"
  by (simp add: key_setter_def lookup_box_def)

lemma measure_prim_same_box:
  assumes "stateref self = Some a" "a < length (heap w)"
    and "measure_prim co self invals reset postselect w = (r, w')"
  shows "same_box a w w'"
  using assms
  unfolding measure_prim_def Let_def
  by (auto simp: key_getter_box key_setter_box state_getter_box state_setter_box same_box_def
      split: sum.splits prod.splits option.splits)

lemma interpret_measurement_same_box:
  assumes "stateref self = Some a" "a < length (heap w)"
    and "interpret_measurement co self m w = (r, w')"
  shows "same_box a w w'"
  using assms
  unfolding interpret_measurement_def interpret_measurement_try_def enable_def disable_def
  by (auto simp: key_getter_box key_setter_box state_getter_box state_setter_box same_box_def
      split: sum.splits prod.splits option.splits list.splits)

lemma interpret_measurement_eqn_same_box:
  assumes "stateref self = Some a" "a < length (heap w)"
    and "interpret_measurement_eqn co self name invals w = (r, w')"
  shows "same_box a w w'"
  using assms
  by (auto simp: interpret_measurement_eqn_def super_interpret_measurement_eqn_def same_box_refl
      split: if_splits dest: interpret_measurement_same_box)

lemma py_copy_stateref: "stateref (py_copy self) = stateref self"
  by (simp add: py_copy_def)

lemma keeps_boxD:
  "keeps_box ev \<Longrightarrow> stateref self = Some a \<Longrightarrow> a < length (heap w) \<Longrightarrow>
     ev (py_copy self) jaxpr consts args w = Some (r, self', w') \<Longrightarrow> same_box a w w'"
  unfolding keeps_box_def using py_copy_stateref by metis

lemma for_loop_iter_same_box:
  assumes "keeps_box ev" "stateref self = Some a"
  shows "a < length (heap w) \<Longrightarrow> for_loop_iter ev self body consts is res w = Some (r, w')
           \<Longrightarrow> same_box a w w'"
proof (induction "is" arbitrary: res w)
  case Nil
  then show ?case by (simp add: same_box_refl)
next
  case (Cons i "is")
  from Cons.prems(2) obtain r1 c1 w1 where
    child: "ev (py_copy self) body consts (VInt i # res) w = Some (r1, c1, w1)"
    by (auto split: option.splits)
  have step: "same_box a w w1"
    using keeps_boxD [OF assms Cons.prems(1) child] .
  show ?case
  proof (cases r1)
    case (Inl e)
    with Cons.prems(2) child step show ?thesis by simp
  next
    case (Inr res')
    with Cons.prems(2) child have "for_loop_iter ev self body consts is res' w1 = Some (r, w')"
      by simp
    from Cons.IH [OF same_box_bound [OF step] this] step show ?thesis
      by (blast intro: same_box_trans)
  qed
qed

lemma for_loop_prim_same_box:
  assumes "keeps_box ev" "stateref self = Some a" "a < length (heap w)"
    and "for_loop_prim ev self start stop step invals body cs as w = Some (r, w')"
  shows "same_box a w w'"
  using assms(4) for_loop_iter_same_box [OF assms(1,2,3)] same_box_refl [OF assms(3)]
  by (auto simp: for_loop_prim_def Let_def split: sum.splits)

lemma while_loop_iter_same_box:
  assumes run: "while_loop_iter ev self body cnd cb cc res w = Some y"
    and "keeps_box ev" "stateref self = Some a" "a < length (heap w)"
  shows "same_box a w (snd y)"
proof -
  have "keeps_box ev \<longrightarrow> stateref self = Some a \<longrightarrow> a < length (heap w) \<longrightarrow> same_box a w (snd y)"
  proof (rule while_loop_iter.raw_induct
      [where P = "\<lambda>ev self body cnd cb cc res w y.
          keeps_box ev \<longrightarrow> stateref self = Some a \<longrightarrow> a < length (heap w) \<longrightarrow> same_box a w (snd y)",
        OF _ run], intro impI)
    fix f :: "('a, 'b) evaluator \<Rightarrow> 'b interpreter \<Rightarrow> jaxpr \<Rightarrow> jaxpr \<Rightarrow> val list \<Rightarrow> val list
        \<Rightarrow> val list \<Rightarrow> ('a, 'b) world \<Rightarrow> ((error + val list) \<times> ('a, 'b) world) option"
    fix ev self body cnd cb cc res w y
    assume IH: "\<And>ev self body cnd cb cc res w y. f ev self body cnd cb cc res w = Some y \<Longrightarrow>
        keeps_box ev \<longrightarrow> stateref self = Some a \<longrightarrow> a < length (heap w) \<longrightarrow> same_box a w (snd y)"
    assume body: "(case ev (py_copy self) cnd cc res w of
        None \<Rightarrow> None | Some (Inl e, x, w1) \<Rightarrow> Some (Inl e, w1)
      | Some (Inr [], x, w1) \<Rightarrow> Some (Inl IndexError, w1)
      | Some (Inr (c # x), xa, w1) \<Rightarrow>
          if truthy c
          then case ev (py_copy self) body cb res w1 of
               None \<Rightarrow> None | Some (Inl e, x, w2) \<Rightarrow> Some (Inl e, w2)
             | Some (Inr fn_res', x, w2) \<Rightarrow> f ev self body cnd cb cc fn_res' w2
          else Some (Inr res, w1)) = Some y"
    assume kb: "keeps_box ev" and sr: "stateref self = Some a" and al: "a < length (heap w)"
    from body obtain r1 c1 w1 where
      c: "ev (py_copy self) cnd cc res w = Some (r1, c1, w1)"
      by (auto split: option.splits)
    have s1: "same_box a w w1"
      using keeps_boxD [OF kb sr al c] .
    show "same_box a w (snd y)"
    proof (cases r1)
      case (Inl e)
      with body c s1 show ?thesis by auto
    next
      case (Inr vs)
      note r1 = this
      show ?thesis
      proof (cases vs)
        case Nil
        with r1 body c s1 show ?thesis by auto
      next
        case (Cons v vs')
        show ?thesis
        proof (cases "truthy v")
          case False
          with Cons r1 body c s1 show ?thesis by auto
        next
          case True
          with Cons r1 body c obtain r2 c2 w2 where
            b: "ev (py_copy self) body cb res w1 = Some (r2, c2, w2)"
            by (auto split: option.splits)
          have s2: "same_box a w1 w2"
            using keeps_boxD [OF kb sr same_box_bound [OF s1] b] .
          show ?thesis
          proof (cases r2)
            case (Inl e)
            with True Cons r1 body c b have "snd y = w2" by auto
            with s1 s2 show ?thesis by (auto intro: same_box_trans)
          next
            case (Inr res')
            with True Cons r1 body c b
            have "f ev self body cnd cb cc res' w2 = Some y"
              by simp
            from IH [OF this] kb sr same_box_bound [OF s2] have "same_box a w2 (snd y)"
              by blast
            with s1 s2 show ?thesis by (blast intro: same_box_trans)
          qed
        qed
      qed
    qed
  qed
  with assms show ?thesis by blast
qed

lemma while_loop_prim_same_box:
  assumes "keeps_box ev" "stateref self = Some a" "a < length (heap w)"
    and "while_loop_prim ev self invals body cnd bs cs as w = Some (r, w')"
  shows "same_box a w w'"
  using while_loop_iter_same_box [OF _ assms(1,2,3)] assms(4)
  by (fastforce simp: while_loop_prim_def Let_def)

lemma cond_branches_same_box:
  assumes "keeps_box ev" "stateref self = Some a" "a < length (heap w)"
  shows "cond_branches ev self invals args bs w = Some (r, w') \<Longrightarrow> same_box a w w'"
proof (induction bs)
  case Nil
  with assms(3) show ?case by (simp add: same_box_refl)
next
  case (Cons b bs)
  obtain pred j cs where b: "b = (pred, j, cs)" by (cases b)
  show ?case
  proof (cases "truthy pred \<and> j \<noteq> None")
    case True
    then obtain jx where j: "j = Some jx" by auto
    with True b Cons.prems obtain c1 where
      "ev (py_copy self) jx (py_slice invals cs) args w = Some (r, c1, w')"
      by (auto simp: Let_def split: option.splits)
    from keeps_boxD [OF assms this] show ?thesis .
  next
    case False
    with b Cons.prems have "cond_branches ev self invals args bs w = Some (r, w')"
      by (auto simp: Let_def split: option.splits bool.splits)
    with Cons.IH show ?thesis .
  qed
qed

lemma cond_prim_same_box:
  assumes "keeps_box ev" "stateref self = Some a" "a < length (heap w)"
    and "cond_prim ev self invals branches css as w = Some (r, w')"
  shows "same_box a w w'"
  using cond_branches_same_box [OF assms(1,2,3)] assms(4)
  by (simp add: cond_prim_def Let_def)

lemma eval_eqn_same_box:
  assumes "keeps_box ev" "stateref self = Some a" "a < length (heap w)"
    and "eval_eqn co ev self p invals w = Some (r, w')"
  shows "same_box a w w'"
proof (cases p)
  case (OperatorPrim name)
  with assms(4) interpret_operation_same_box [OF assms(2,3)] show ?thesis
    by (auto split: prod.splits sum.splits)
next
  case (MeasurementPrim name)
  with assms(4) interpret_measurement_eqn_same_box [OF assms(2,3)] show ?thesis
    by (auto split: prod.splits sum.splits)
next
  case (MeasurePrim reset postselect)
  with assms(4) measure_prim_same_box [OF assms(2,3)] show ?thesis
    by (auto split: prod.splits sum.splits)
next
  case AdjointTransformPrim
  with assms(3,4) show ?thesis
    by (auto simp: adjoint_transform_prim_def same_box_refl)
next
  case CtrlTransformPrim
  with assms(3,4) show ?thesis
    by (auto simp: ctrl_transform_prim_def same_box_refl)
next
  case (ForLoopPrim body cs asl)
  with assms(3,4) for_loop_prim_same_box [OF assms(1,2,3)] show ?thesis
    by (auto simp: same_box_refl split: list.splits)
next
  case (WhileLoopPrim body cnd bs cs asl)
  with assms(4) while_loop_prim_same_box [OF assms(1,2,3)] show ?thesis
    by auto
next
  case (CondPrim branches css asl)
  with assms(4) cond_prim_same_box [OF assms(1,2,3)] show ?thesis
    by auto
qed

lemma eval_eqns_same_box:
  assumes "keeps_box ev" "stateref self = Some a"
  shows "a < length (heap w) \<Longrightarrow> eval_eqns co ev self env es w = Some (r, w') \<Longrightarrow> same_box a w w'"
proof (induction es arbitrary: env w)
  case Nil
  then show ?case by (simp add: same_box_refl)
next
  case (Cons e es)
  obtain p ins outs where e: "e = Eqn p ins outs" by (cases e)
  show ?case
  proof (cases "read_all env ins")
    case (Inl err)
    with e Cons.prems show ?thesis by (simp add: same_box_refl)
  next
    case (Inr invals)
    with e Cons.prems obtain r1 w1 where
      q: "eval_eqn co ev self p invals w = Some (r1, w1)"
      by (auto split: option.splits)
    have s1: "same_box a w w1"
      using eval_eqn_same_box [OF assms Cons.prems(1) q] .
    show ?thesis
    proof (cases r1)
      case (Inl err)
      with e Inr q Cons.prems s1 show ?thesis by simp
    next
      case (Inr outvals)
      with e \<open>read_all env ins = Inr invals\<close> q Cons.prems
      have "eval_eqns co ev self (bind_vars env outs outvals) es w1 = Some (r, w')"
        by simp
      from Cons.IH [OF same_box_bound [OF s1] this] s1 show ?thesis
        by (blast intro: same_box_trans)
    qed
  qed
qed

lemma setup_box_present: "stateref self = Some a \<Longrightarrow> setup_box co self w = (self, w)"
  by (simp add: setup_box_def)

lemma eval_keeps_box: "keeps_box (eval co n)"
proof (induction n)
  case 0
  show ?case by (simp add: keeps_box_def)
next
  case (Suc n)
  show ?case
    unfolding keeps_box_def
  proof (intro allI impI)
    fix self jaxpr cs0 args w r self' w' a
    assume sr: "stateref self = Some a" and al: "a < length (heap w)"
      and run: "eval co (Suc n) self jaxpr cs0 args w = Some (r, self', w')"
    from run obtain r1 where
      "eval_eqns co (eval co n) self
         (bind_vars (bind_vars Map.empty (invars jaxpr) args) (constvars jaxpr) cs0)
         (eqns jaxpr) w = Some (r1, w')"
      by (auto simp: setup_box_present [OF sr] Let_def split: option.splits sum.splits)
    from eval_eqns_same_box [OF Suc sr al this] show "same_box a w w'" .
  qed
qed

section \<open>Set-up and clean-up around a top-level evaluation\<close>

lemma for_loop_iter_append:
  "for_loop_iter ev self body cs (is @ js) res w =
     (case for_loop_iter ev self body cs is res w of
        None \<Rightarrow> None
      | Some (Inl e, w') \<Rightarrow> Some (Inl e, w')
      | Some (Inr res', w') \<Rightarrow> for_loop_iter ev self body cs js res' w')"
  by (induction "is" arbitrary: res w) (auto split: option.splits sum.splits)

lemma setup_box_absent:
  "stateref self = None \<Longrightarrow>
     setup_box co self w =
       (self\<lparr>stateref := Some (length (heap w))\<rparr>,
        w\<lparr>heap := heap w @
           [\<lparr>box_state = create_initial_state co (num_wires self), box_key = initial_key self\<rparr>]\<rparr>)"
  by (simp add: setup_box_def)

lemma cleanup_box:
  "stateref self = Some a \<Longrightarrow> a < length (heap w) \<Longrightarrow>
     cleanup self w = Inr (self\<lparr>initial_key := box_key (heap w ! a), stateref := None\<rparr>)"
  by (simp add: cleanup_def key_getter_box)

lemma eval_top_level:
  assumes "stateref self = None"
    and run: "eval co n self jaxpr cs0 args w = Some (Inr outs, self', w')"
  shows "length (heap w') = Suc (length (heap w))
     \<and> take (length (heap w)) (heap w') = heap w
     \<and> self' = self\<lparr>initial_key := box_key (last (heap w')), stateref := None\<rparr>"
proof (cases n)
  case 0
  with run show ?thesis by simp
next
  case (Suc m)
  let ?a = "length (heap w)"
  let ?self1 = "self\<lparr>stateref := Some ?a\<rparr>"
  let ?w1 = "w\<lparr>heap := heap w @
     [\<lparr>box_state = create_initial_state co (num_wires self), box_key = initial_key self\<rparr>]\<rparr>"
  from run Suc obtain env' where
    eq: "eval_eqns co (eval co m) ?self1
           (bind_vars (bind_vars Map.empty (invars jaxpr) args) (constvars jaxpr) cs0)
           (eqns jaxpr) ?w1 = Some (Inr env', w')"
    and cl: "cleanup ?self1 w' = Inr self'"
    by (auto simp: setup_box_absent [OF assms(1)] Let_def split: option.splits sum.splits)
  have sb: "same_box ?a ?w1 w'"
    using eval_eqns_same_box [OF eval_keeps_box _ _ eq, of ?a] by simp
  then have h: "heap w' = (heap w @
      [\<lparr>box_state = create_initial_state co (num_wires self), box_key = initial_key self\<rparr>])
      [?a := heap w' ! ?a]"
    by (simp add: same_box_def)
  have len: "length (heap w') = Suc ?a"
    using same_box_length [OF sb] by simp
  have tk: "take ?a (heap w') = heap w"
    by (subst h) simp
  have "heap w' \<noteq> []" using len by auto
  then have lst: "last (heap w') = heap w' ! ?a"
    using len by (simp add: last_conv_nth)
  have "cleanup ?self1 w' = Inr (?self1\<lparr>initial_key := box_key (heap w' ! ?a), stateref := None\<rparr>)"
    by (rule cleanup_box) (simp_all add: len)
  with cl lst have "self' = self\<lparr>initial_key := box_key (last (heap w')), stateref := None\<rparr>"
    by simp
  with len tk show ?thesis by simp
qed

lemma example_for_loop:
  "for_loop_prim (eval example_collaborators 1) example_interpreter
      (VInt 0) (VInt 2) (VInt 1) [VInt 7] example_body (Slice (Some 0) (Some 0)) (Slice (Some 0) None)
      example_world
   = Some (Inr [VInt 7], \<lparr>heap = [\<lparr>box_state = 2, box_key = 5\<rparr>], capture_enabled = True\<rparr>)"
  by code_simp

lemma example_top_level_run:
  "eval example_collaborators 2 example_top_interpreter example_program [] [VInt 7]
      \<lparr>heap = [], capture_enabled = True\<rparr>
   = Some (Inr [VInt 0, VInt 7],
       \<lparr>num_wires = 2, shots = None, initial_key = 11, stateref = None\<rparr>,
       \<lparr>heap = [\<lparr>box_state = 12, box_key = 11\<rparr>], capture_enabled = True\<rparr>)"
  by code_simp

section \<open>Measurements on an existing execution state\<close>

lemma example_collaborators_simps:
  "create_initial_state example_collaborators n = 0"
  "apply_operation example_collaborators op None = Inl TypeError"
  "apply_operation example_collaborators op (Some x) = Inr (x + 1)"
  "apply_mid_measure example_collaborators mp None k = Inl TypeError"
  "apply_mid_measure example_collaborators mp (Some x) k =
     Inr (x + 10, [mp \<mapsto> VInt (int (k mod 2))])"
  "measure_mp example_collaborators c m None = Inl TypeError"
  "measure_mp example_collaborators c m (Some x) =
     (if c then Inl CollaboratorError else Inr (VInt (int x)))"
  "measure_with_samples example_collaborators c ms None n k = Inl TypeError"
  "measure_with_samples example_collaborators c ms (Some x) n k =
     (if c then Inl CollaboratorError else Inr (map (\<lambda>m. VInt (int (x + n + k))) ms))"
  "random_split example_collaborators k = (2 * k + 1, 2 * k + 2)"
  by (simp_all add: example_collaborators_def)

lemma example_split_inj: "inj (\<lambda>x. snd (random_split example_collaborators x))"
  by (simp add: example_collaborators_def inj_def)

lemma measure_prim_box:
  assumes "stateref self = Some a" "a < length (heap w)"
    and "heap w ! a = \<lparr>box_state = s, box_key = k\<rparr>"
    and "random_split co k = (k1, d)"
    and "apply_mid_measure co (MidMeasureMP invals reset postselect) (Some s) d = Inr (s', mcms)"
    and "mcms (MidMeasureMP invals reset postselect) = Some outcome"
  shows "measure_prim co self invals reset postselect w =
           (Inr outcome, w\<lparr>heap := (heap w)[a := \<lparr>box_state = s', box_key = k1\<rparr>]\<rparr>)"
  using assms
  by (simp add: measure_prim_def Let_def key_getter_box key_setter_box state_getter_box
      state_setter_box)

lemma sum_case_id: "(case x of Inl e \<Rightarrow> (Inl e, w) | Inr v \<Rightarrow> (Inr v, w)) = (x, w)"
  by (cases x) simp_all

lemma interpret_measurement_analytic:
  assumes "shots self = None" "stateref self = Some a" "a < length (heap w)"
  shows "interpret_measurement co self m w =
           (measure_mp co False m (Some (box_state (heap w ! a))), enable w)"
  using assms
  by (simp add: interpret_measurement_def interpret_measurement_try_def disable_def enable_def
      state_getter_box sum_case_id)

lemma interpret_measurement_analytic_heap:
  assumes "shots self = None"
  shows "heap (snd (interpret_measurement co self m w)) = heap w"
  using assms
  by (auto simp: interpret_measurement_def interpret_measurement_try_def disable_def enable_def
      split: sum.splits prod.splits)

lemma interpret_measurement_shots:
  assumes "shots self = Some n" "stateref self = Some a" "a < length (heap w)"
    and "heap w ! a = \<lparr>box_state = s, box_key = k\<rparr>"
    and "random_split co k = (k1, d)"
  shows "interpret_measurement co self m w =
           (case measure_with_samples co False [m] (Some s) n d of
              Inl e \<Rightarrow> Inl e
            | Inr [] \<Rightarrow> Inl IndexError
            | Inr (output # _) \<Rightarrow> Inr output,
            enable (w\<lparr>heap := (heap w)[a := \<lparr>box_state = s, box_key = k1\<rparr>]\<rparr>))"
  using assms
  by (simp add: interpret_measurement_def interpret_measurement_try_def disable_def enable_def
      key_getter_box key_setter_box state_getter_box split: sum.splits list.splits)

section \<open>The loops and the branch\<close>

lemma while_loop_iter_stop:
  assumes "ev (py_copy self) cnd cc fn_res w = Some (Inr (c # rest), self1, w1)" "\<not> truthy c"
  shows "while_loop_iter ev self body cnd cb cc fn_res w = Some (Inr fn_res, w1)"
  using assms by (subst while_loop_iter.simps) simp

lemma while_loop_iter_step:
  assumes "ev (py_copy self) cnd cc fn_res w = Some (Inr (c # rest), self1, w1)" "truthy c"
    and "ev (py_copy self) body cb fn_res w1 = Some (Inr fn_res', self2, w2)"
  shows "while_loop_iter ev self body cnd cb cc fn_res w =
           while_loop_iter ev self body cnd cb cc fn_res' w2"
  using assms by (subst while_loop_iter.simps) simp

lemma example_cond_false:
  "eval example_collaborators 1 (py_copy example_interpreter) example_cond []
      [VBool False] example_world
   = Some (Inr [VBool False],
       \<lparr>num_wires = 2, shots = None, initial_key = 5, stateref = None\<rparr>, example_world)"
  by code_simp

lemma example_while_once:
  "while_loop_prim (eval example_collaborators 1) example_interpreter [VBool True]
      example_while_body example_cond (Slice (Some 0) (Some 0)) (Slice (Some 0) (Some 0))
      (Slice (Some 0) None) example_world
   = Some (Inr [VBool False], \<lparr>heap = [\<lparr>box_state = 1, box_key = 5\<rparr>], capture_enabled = True\<rparr>)"
  by code_simp

lemma cond_branches_selected:
  "cond_branches ev self invals args branches w =
     (case spec_selected_branch branches of
        None \<Rightarrow> Some (Inr [], w)
      | Some (jaxpr, const_slice) \<Rightarrow>
          (case ev (py_copy self) jaxpr (py_slice invals const_slice) args w of
             None \<Rightarrow> None
           | Some (r, _, w') \<Rightarrow> Some (r, w')))"
proof (induction branches)
  case Nil
  show ?case by simp
next
  case (Cons b bs)
  obtain pred j cs where b: "b = (pred, j, cs)" by (cases b)
  show ?case
  proof (cases "truthy pred \<and> j \<noteq> None")
    case True
    then obtain jx where "j = Some jx" by auto
    with True b show ?thesis by (simp add: Let_def)
  next
    case False
    with b have "cond_branches ev self invals args (b # bs) w =
        cond_branches ev self invals args bs w"
      by (auto simp: Let_def split: option.splits bool.splits)
    moreover from False b have "spec_selected_branch (b # bs) = spec_selected_branch bs"
      by auto
    ultimately show ?thesis using Cons.IH by simp
  qed
qed

lemma range_length_pos_step:
  assumes "0 < st" "lo < hi"
  shows "range_length lo hi st = Suc (range_length (lo + st) hi st)"
proof (cases "lo + st < hi")
  case True
  have "(hi - lo - 1) div st = (hi - (lo + st) - 1) div st + 1"
  proof -
    have "hi - lo - 1 = (hi - (lo + st) - 1) + st" by simp
    then show ?thesis using assms(1) by (metis div_add_self2 less_irrefl)
  qed
  moreover have "0 \<le> (hi - (lo + st) - 1) div st"
    using True assms(1) by (simp add: pos_imp_zdiv_nonneg_iff)
  ultimately show ?thesis
    using assms True by (simp add: range_length_def nat_add_distrib)
next
  case False
  then have "(hi - lo - 1) div st = 0"
    using assms by (simp add: div_pos_pos_trivial)
  with assms False show ?thesis
    by (simp add: range_length_def)
qed

lemma range_length_neg_step:
  assumes "st < 0" "hi < lo"
  shows "range_length lo hi st = Suc (range_length (lo + st) hi st)"
proof (cases "hi < lo + st")
  case True
  have "(lo - hi - 1) div (- st) = (lo + st - hi - 1) div (- st) + 1"
  proof -
    have "lo - hi - 1 = (lo + st - hi - 1) + (- st)" by simp
    then show ?thesis using assms(1) by (metis div_add_self2 neg_equal_0_iff_equal less_irrefl)
  qed
  moreover have "0 \<le> (lo + st - hi - 1) div (- st)"
    using True assms(1) by (simp add: pos_imp_zdiv_nonneg_iff)
  ultimately show ?thesis
    using assms True by (simp add: range_length_def nat_add_distrib)
next
  case False
  then have "(lo - hi - 1) div (- st) = 0"
    using assms by (simp add: div_pos_pos_trivial)
  with assms False show ?thesis
    by (simp add: range_length_def)
qed

lemma range_length_empty:
  "\<not> ((0 < st \<and> lo < hi) \<or> (st < 0 \<and> hi < lo)) \<Longrightarrow> range_length lo hi st = 0"
  by (auto simp: range_length_def)

lemma range_list_unfold:
  assumes "(0 < st \<and> lo < hi) \<or> (st < 0 \<and> hi < lo)"
  shows "map (\<lambda>n. lo + int n * st) [0..<range_length lo hi st] =
           lo # map (\<lambda>n. (lo + st) + int n * st) [0..<range_length (lo + st) hi st]"
proof -
  have "range_length lo hi st = Suc (range_length (lo + st) hi st)"
    using assms range_length_pos_step range_length_neg_step by blast
  then show ?thesis
    by (simp add: map_upt_Suc algebra_simps del: upt_Suc)
qed

lemma for_loop_iter_spec:
  "for_loop_iter ev self body cs (map (\<lambda>n. i + int n * step) [0..<range_length i stop step])
       carried w
   = spec_bounded_loop ev self body cs i stop step carried w"
proof (induction ev self body cs i stop step carried w rule: spec_bounded_loop.induct)
  case (1 ev self body cs i stop step carried w)
  show ?case
  proof (cases "(0 < step \<and> i < stop) \<or> (step < 0 \<and> stop < i)")
    case True
    show ?thesis
      apply (subst spec_bounded_loop.simps)
      apply (subst range_list_unfold [OF True])
      using True "1.IH"
      apply (auto split: option.splits sum.splits)
      done
  next
    case False
    have "spec_bounded_loop ev self body cs i stop step carried w = Some (Inr carried, w)"
      using False by (subst spec_bounded_loop.simps) auto
    with False show ?thesis
      by (simp add: range_length_empty)
  qed
qed

lemma example_spec_loop:
  "spec_bounded_loop (eval example_collaborators 1) example_interpreter example_body
      [] 0 2 1 [VInt 7] example_world
   = Some (Inr [VInt 7], \<lparr>heap = [\<lparr>box_state = 2, box_key = 5\<rparr>], capture_enabled = True\<rparr>)"
  by code_simp

lemma example_range: "py_range (VInt 0) (VInt 2) (VInt 1) = Inr [0, 1]"
  by code_simp

lemma example_body_first:
  "eval example_collaborators 1 (py_copy example_interpreter) example_body
      (py_slice [VInt 7] (Slice (Some 0) (Some 0)))
      (VInt 0 # py_slice [VInt 7] (Slice (Some 0) None)) example_world
   = Some (Inr [VInt 7], \<lparr>num_wires = 2, shots = None, initial_key = 5, stateref = None\<rparr>,
       \<lparr>heap = [\<lparr>box_state = 1, box_key = 5\<rparr>], capture_enabled = True\<rparr>)"
  by code_simp

lemma example_body_second:
  "eval example_collaborators 1 (py_copy example_interpreter) example_body
      (py_slice [VInt 7] (Slice (Some 0) (Some 0))) [VInt 1, VInt 7]
      \<lparr>heap = [\<lparr>box_state = 1, box_key = 5\<rparr>], capture_enabled = True\<rparr>
   = Some (Inr [VInt 7], \<lparr>num_wires = 2, shots = None, initial_key = 5, stateref = None\<rparr>,
       \<lparr>heap = [\<lparr>box_state = 2, box_key = 5\<rparr>], capture_enabled = True\<rparr>)"
  by code_simp

section \<open>Relabelling is the functorial map\<close>

lemma operator_map_wires_map:
  "operator_map_wires wire_map op = map_operator (relabel wire_map) op"
  by (induction op) simp

lemma measurement_map_wires_map:
  "measurement_map_wires wire_map m = map_measurement_process (relabel wire_map) m"
  by (cases m) (simp add: operator_map_wires_map option.map_ident cong: option.map_cong)

lemma object_map_wires_map:
  "object_map_wires wire_map x = map_qobject (relabel wire_map) x"
  by (cases x) (simp_all add: operator_map_wires_map measurement_map_wires_map)

section \<open>The claims\<close>

text \<open>
  C1: every child frame that the handlers of the for loop, the while loop and the
  conditional spawn holds the reference the parent holds, no handler replaces or
  re-creates the dictionary, and what a child writes into it is seen by the next
  iteration, by the sibling frames and by the parent.  \<open>copy(self)\<close> carries the
  parent's reference \<open>a\<close>.  When the child evaluator works on the dictionary it is
  given, so does each handler: the store it returns differs from the store it received
  in the contents of \<open>a\<close> only, and no dictionary was allocated.  The world a child
  leaves is the world the handler goes on with.  In the for loop, the iteration after a
  child starts from the carried values and the world that child left, and the world
  the last child left is the world the handler returns.  In the while loop, the body is
  evaluated in the world the condition left, the next round starts from the world the
  body left, and when the condition is false the handler returns the world the
  condition left.  In the conditional, the handler returns the world the selected
  branch left.  In each case the parent reads, through its own reference, the state
  and the key of the dictionary as the last child left it.  That the evaluator itself
  works on the dictionary it is given is \<open>eval_keeps_box\<close>.
\<close>

theorem child_frames_share_box:
  assumes "keeps_box ev" "stateref self = Some a" "a < length (heap w)"
  shows "stateref (py_copy self) = Some a
     \<and> (for_loop_prim ev self start stop step invals body cs asl w = Some (r1, w1) \<longrightarrow>
          same_box a w w1
          \<and> state_getter self w1 = Inr (Some (box_state (heap w1 ! a)))
          \<and> key_getter self w1 = Inr (box_key (heap w1 ! a)))
     \<and> (while_loop_prim ev self invals2 body2 cnd2 bs2 cs2 asl2 w = Some (r2, w2) \<longrightarrow>
          same_box a w w2
          \<and> state_getter self w2 = Inr (Some (box_state (heap w2 ! a)))
          \<and> key_getter self w2 = Inr (box_key (heap w2 ! a)))
     \<and> (cond_prim ev self invals3 branches css asl3 w = Some (r3, w3) \<longrightarrow>
          same_box a w w3
          \<and> state_getter self w3 = Inr (Some (box_state (heap w3 ! a)))
          \<and> key_getter self w3 = Inr (box_key (heap w3 ! a)))
     \<and> for_loop_iter ev self body consts0 (is @ js) res w =
          (case for_loop_iter ev self body consts0 is res w of
             None \<Rightarrow> None
           | Some (Inl e, w') \<Rightarrow> Some (Inl e, w')
           | Some (Inr res', w') \<Rightarrow> for_loop_iter ev self body consts0 js res' w')
     \<and> (py_range start stop step = Inr (i # rest_is)
          \<and> ev (py_copy self) body (py_slice invals cs) (VInt i # py_slice invals asl) w
              = Some (Inr res1, c1, wc1) \<longrightarrow>
          for_loop_prim ev self start stop step invals body cs asl w =
            for_loop_iter ev self body (py_slice invals cs) rest_is res1 wc1
          \<and> same_box a w wc1)
     \<and> (ev (py_copy self) body consts0 (VInt i # res) wi = Some (Inr res1, c1, wc1) \<longrightarrow>
          for_loop_iter ev self body consts0 (i # rest_is) res wi =
            for_loop_iter ev self body consts0 rest_is res1 wc1
          \<and> for_loop_iter ev self body consts0 [i] res wi = Some (Inr res1, wc1))
     \<and> while_loop_prim ev self invals2 body2 cnd2 bs2 cs2 asl2 w =
          while_loop_iter ev self body2 cnd2 (py_slice invals2 bs2) (py_slice invals2 cs2)
            (py_slice invals2 asl2) w
     \<and> (ev (py_copy self) cnd2 cc res wi = Some (Inr (c # crest), c1, wc1) \<and> truthy c
          \<and> ev (py_copy self) body2 cb res wc1 = Some (Inr res2, c2, wc2) \<longrightarrow>
          while_loop_iter ev self body2 cnd2 cb cc res wi =
            while_loop_iter ev self body2 cnd2 cb cc res2 wc2)
     \<and> (ev (py_copy self) cnd2 cc res wi = Some (Inr (c # crest), c1, wc1) \<and> \<not> truthy c
          \<longrightarrow>
          while_loop_iter ev self body2 cnd2 cb cc res wi = Some (Inr res, wc1))
     \<and> (spec_selected_branch
            (zip (take (length branches) invals3) (zip branches css)) = Some (j, csl)
          \<and> ev (py_copy self) j (py_slice invals3 csl) (py_slice invals3 asl3) w
              = Some (r3, c1, wc1) \<longrightarrow>
          cond_prim ev self invals3 branches css asl3 w = Some (r3, wc1)
          \<and> same_box a w wc1
          \<and> state_getter self wc1 = Inr (Some (box_state (heap wc1 ! a)))
          \<and> key_getter self wc1 = Inr (box_key (heap wc1 ! a)))
     \<and> (py_range start stop step = Inr [i, i2]
          \<and> ev (py_copy self) body (py_slice invals cs) (VInt i # py_slice invals asl) w
              = Some (Inr res1, c1, wc1)
          \<and> ev (py_copy self) body (py_slice invals cs) (VInt i2 # res1) wc1
              = Some (Inr res2, c2, wc2) \<longrightarrow>
          for_loop_prim ev self start stop step invals body cs asl w = Some (Inr res2, wc2)
          \<and> state_getter self wc2 = Inr (Some (box_state (heap wc2 ! a)))
          \<and> key_getter self wc2 = Inr (box_key (heap wc2 ! a)))"
proof -
  have getters: "same_box a w w' \<Longrightarrow>
      state_getter self w' = Inr (Some (box_state (heap w' ! a)))
      \<and> key_getter self w' = Inr (box_key (heap w' ! a))" for w'
    using assms(2) by (simp add: state_getter_box key_getter_box same_box_bound)
  have ref: "stateref (py_copy self) = Some a"
    using assms(2) by (simp add: py_copy_stateref)
  have frame_for: "for_loop_prim ev self start stop step invals body cs asl w = Some (r1, w1)
      \<longrightarrow> same_box a w w1"
    using for_loop_prim_same_box [OF assms] by blast
  have frame_while: "while_loop_prim ev self invals2 body2 cnd2 bs2 cs2 asl2 w = Some (r2, w2)
      \<longrightarrow> same_box a w w2"
    using while_loop_prim_same_box [OF assms] by blast
  have frame_cond: "cond_prim ev self invals3 branches css asl3 w = Some (r3, w3)
      \<longrightarrow> same_box a w w3"
    using cond_prim_same_box [OF assms] by blast
  have chain: "for_loop_iter ev self body consts0 (is @ js) res w =
          (case for_loop_iter ev self body consts0 is res w of
             None \<Rightarrow> None
           | Some (Inl e, w') \<Rightarrow> Some (Inl e, w')
           | Some (Inr res', w') \<Rightarrow> for_loop_iter ev self body consts0 js res' w')"
    by (rule for_loop_iter_append)
  have first: "py_range start stop step = Inr (i # rest_is)
          \<and> ev (py_copy self) body (py_slice invals cs) (VInt i # py_slice invals asl) w
              = Some (Inr res1, c1, wc1) \<longrightarrow>
          for_loop_prim ev self start stop step invals body cs asl w =
            for_loop_iter ev self body (py_slice invals cs) rest_is res1 wc1
          \<and> same_box a w wc1"
    using keeps_boxD [OF assms] by (auto simp: for_loop_prim_def Let_def)
  have next_iter: "ev (py_copy self) body consts0 (VInt i # res) wi = Some (Inr res1, c1, wc1)
          \<longrightarrow>
          for_loop_iter ev self body consts0 (i # rest_is) res wi =
            for_loop_iter ev self body consts0 rest_is res1 wc1
          \<and> for_loop_iter ev self body consts0 [i] res wi = Some (Inr res1, wc1)"
    by simp
  have prim_while: "while_loop_prim ev self invals2 body2 cnd2 bs2 cs2 asl2 w =
          while_loop_iter ev self body2 cnd2 (py_slice invals2 bs2) (py_slice invals2 cs2)
            (py_slice invals2 asl2) w"
    by (simp add: while_loop_prim_def Let_def)
  have step_while: "ev (py_copy self) cnd2 cc res wi = Some (Inr (c # crest), c1, wc1)
          \<and> truthy c
          \<and> ev (py_copy self) body2 cb res wc1 = Some (Inr res2, c2, wc2) \<longrightarrow>
          while_loop_iter ev self body2 cnd2 cb cc res wi =
            while_loop_iter ev self body2 cnd2 cb cc res2 wc2"
    by (blast intro: while_loop_iter_step)
  have stop_while: "ev (py_copy self) cnd2 cc res wi = Some (Inr (c # crest), c1, wc1)
          \<and> \<not> truthy c \<longrightarrow>
          while_loop_iter ev self body2 cnd2 cb cc res wi = Some (Inr res, wc1)"
    by (blast intro: while_loop_iter_stop)
  have branch: "spec_selected_branch
            (zip (take (length branches) invals3) (zip branches css)) = Some (j, csl)
          \<and> ev (py_copy self) j (py_slice invals3 csl) (py_slice invals3 asl3) w
              = Some (r3, c1, wc1) \<longrightarrow>
          cond_prim ev self invals3 branches css asl3 w = Some (r3, wc1)
          \<and> same_box a w wc1
          \<and> state_getter self wc1 = Inr (Some (box_state (heap wc1 ! a)))
          \<and> key_getter self wc1 = Inr (box_key (heap wc1 ! a))"
  proof (intro impI, elim conjE)
    assume sel: "spec_selected_branch
        (zip (take (length branches) invals3) (zip branches css)) = Some (j, csl)"
      and child: "ev (py_copy self) j (py_slice invals3 csl) (py_slice invals3 asl3) w
        = Some (r3, c1, wc1)"
    have run: "cond_prim ev self invals3 branches css asl3 w = Some (r3, wc1)"
      unfolding cond_prim_def Let_def cond_branches_selected sel using child by simp
    have "same_box a w wc1"
      using keeps_boxD [OF assms child] .
    with run getters show "cond_prim ev self invals3 branches css asl3 w = Some (r3, wc1)
          \<and> same_box a w wc1
          \<and> state_getter self wc1 = Inr (Some (box_state (heap wc1 ! a)))
          \<and> key_getter self wc1 = Inr (box_key (heap wc1 ! a))"
      by blast
  qed
  from frame_for getters
  have c_for: "for_loop_prim ev self start stop step invals body cs asl w = Some (r1, w1) \<longrightarrow>
          same_box a w w1
          \<and> state_getter self w1 = Inr (Some (box_state (heap w1 ! a)))
          \<and> key_getter self w1 = Inr (box_key (heap w1 ! a))"
    by blast
  from frame_while getters
  have c_while: "while_loop_prim ev self invals2 body2 cnd2 bs2 cs2 asl2 w = Some (r2, w2) \<longrightarrow>
          same_box a w w2
          \<and> state_getter self w2 = Inr (Some (box_state (heap w2 ! a)))
          \<and> key_getter self w2 = Inr (box_key (heap w2 ! a))"
    by blast
  from frame_cond getters
  have c_cond: "cond_prim ev self invals3 branches css asl3 w = Some (r3, w3) \<longrightarrow>
          same_box a w w3
          \<and> state_getter self w3 = Inr (Some (box_state (heap w3 ! a)))
          \<and> key_getter self w3 = Inr (box_key (heap w3 ! a))"
    by blast
  have two: "py_range start stop step = Inr [i, i2]
          \<and> ev (py_copy self) body (py_slice invals cs) (VInt i # py_slice invals asl) w
              = Some (Inr res1, c1, wc1)
          \<and> ev (py_copy self) body (py_slice invals cs) (VInt i2 # res1) wc1
              = Some (Inr res2, c2, wc2) \<longrightarrow>
          for_loop_prim ev self start stop step invals body cs asl w = Some (Inr res2, wc2)
          \<and> state_getter self wc2 = Inr (Some (box_state (heap wc2 ! a)))
          \<and> key_getter self wc2 = Inr (box_key (heap wc2 ! a))"
  proof (intro impI, elim conjE)
    assume r: "py_range start stop step = Inr [i, i2]"
      and k1: "ev (py_copy self) body (py_slice invals cs) (VInt i # py_slice invals asl) w
        = Some (Inr res1, c1, wc1)"
      and k2: "ev (py_copy self) body (py_slice invals cs) (VInt i2 # res1) wc1
        = Some (Inr res2, c2, wc2)"
    have run: "for_loop_prim ev self start stop step invals body cs asl w = Some (Inr res2, wc2)"
      using r k1 k2 by (simp add: for_loop_prim_def Let_def)
    have s1: "same_box a w wc1"
      using keeps_boxD [OF assms k1] .
    have "same_box a wc1 wc2"
      using keeps_boxD [OF assms(1,2) same_box_bound [OF s1] k2] .
    with s1 have "same_box a w wc2"
      by (rule same_box_trans)
    with run getters show "for_loop_prim ev self start stop step invals body cs asl w
          = Some (Inr res2, wc2)
          \<and> state_getter self wc2 = Inr (Some (box_state (heap wc2 ! a)))
          \<and> key_getter self wc2 = Inr (box_key (heap wc2 ! a))"
      by blast
  qed
  show ?thesis
    by (intro conjI ref c_for c_while c_cond chain first next_iter prim_while step_while
        stop_while branch two)
qed

theorem child_frames_share_box_witness:
  "keeps_box (eval example_collaborators 1)
   \<and> stateref example_interpreter = Some 0
   \<and> 0 < length (heap example_world)
   \<and> stateref (py_copy example_interpreter) = Some 0
   \<and> state_getter example_interpreter example_world = Inr (Some 0)
   \<and> eval example_collaborators 1 (py_copy example_interpreter) example_body
        (py_slice [VInt 7] (Slice (Some 0) (Some 0)))
        (VInt 0 # py_slice [VInt 7] (Slice (Some 0) None)) example_world
      = Some (Inr [VInt 7], \<lparr>num_wires = 2, shots = None, initial_key = 5, stateref = None\<rparr>,
          \<lparr>heap = [\<lparr>box_state = 1, box_key = 5\<rparr>], capture_enabled = True\<rparr>)
   \<and> eval example_collaborators 1 (py_copy example_interpreter) example_body
        (py_slice [VInt 7] (Slice (Some 0) (Some 0))) [VInt 1, VInt 7]
        \<lparr>heap = [\<lparr>box_state = 1, box_key = 5\<rparr>], capture_enabled = True\<rparr>
      = Some (Inr [VInt 7], \<lparr>num_wires = 2, shots = None, initial_key = 5, stateref = None\<rparr>,
          \<lparr>heap = [\<lparr>box_state = 2, box_key = 5\<rparr>], capture_enabled = True\<rparr>)
   \<and> for_loop_prim (eval example_collaborators 1) example_interpreter
        (VInt 0) (VInt 2) (VInt 1) [VInt 7] example_body (Slice (Some 0) (Some 0))
        (Slice (Some 0) None) example_world
       = Some (Inr [VInt 7], \<lparr>heap = [\<lparr>box_state = 2, box_key = 5\<rparr>], capture_enabled = True\<rparr>)
   \<and> state_getter example_interpreter
        \<lparr>heap = [\<lparr>box_state = 2, box_key = 5\<rparr>], capture_enabled = True\<rparr> = Inr (Some (2::nat))"
proof -
  have k: "keeps_box (eval example_collaborators 1)"
    by (rule eval_keeps_box)
  have s: "stateref example_interpreter = Some 0"
    by (simp add: example_interpreter_def)
  have l: "0 < length (heap example_world)"
    by (simp add: example_world_def)
  have g: "state_getter example_interpreter example_world = Inr (Some 0)"
    by (simp add: state_getter_def lookup_box_def example_interpreter_def example_world_def)
  note t = child_frames_share_box [OF k s l,
      where start = "VInt 0" and stop = "VInt 2" and step = "VInt 1" and invals = "[VInt 7]"
        and body = example_body and cs = "Slice (Some 0) (Some 0)" and asl = "Slice (Some 0) None"
        and i = 0 and ?i2.0 = 1 and ?res1.0 = "[VInt 7]" and ?res2.0 = "[VInt 7]"
        and ?c1.0 = "\<lparr>num_wires = 2, shots = None, initial_key = 5, stateref = None\<rparr>"
        and ?c2.0 = "\<lparr>num_wires = 2, shots = None, initial_key = 5, stateref = None\<rparr>"
        and ?wc1.0 = "\<lparr>heap = [\<lparr>box_state = 1, box_key = 5\<rparr>], capture_enabled = True\<rparr>"
        and ?wc2.0 = "\<lparr>heap = [\<lparr>box_state = 2, box_key = 5\<rparr>], capture_enabled = True\<rparr>"]
  have run: "for_loop_prim (eval example_collaborators 1) example_interpreter
        (VInt 0) (VInt 2) (VInt 1) [VInt 7] example_body (Slice (Some 0) (Some 0))
        (Slice (Some 0) None) example_world
       = Some (Inr [VInt 7], \<lparr>heap = [\<lparr>box_state = 2, box_key = 5\<rparr>], capture_enabled = True\<rparr>)
     \<and> state_getter example_interpreter
        \<lparr>heap = [\<lparr>box_state = 2, box_key = 5\<rparr>], capture_enabled = True\<rparr>
       = Inr (Some (box_state (heap
           \<lparr>heap = [\<lparr>box_state = 2::nat, box_key = 5::nat\<rparr>], capture_enabled = True\<rparr> ! 0)))"
    using t example_range example_body_first example_body_second by simp
  then show ?thesis
    using k s l g example_body_first example_body_second
    by (simp add: py_copy_stateref)
qed

text \<open>
  C2, as stated: for every start, stop and step the bounded loop is classical iteration,
  and a step of zero is a no-op that returns the initial carried arguments.  With a
  step of zero the handler raises: \<open>range(start, stop, 0)\<close> is a \<open>ValueError\<close>, also
  when \<open>start == stop\<close>.
\<close>

theorem for_loop_step_zero_counterexample:
  "for_loop_prim (eval example_collaborators 1) example_interpreter
      (VInt 0) (VInt 0) (VInt 0) [VInt 7] example_body (Slice (Some 0) (Some 0))
      (Slice (Some 0) None) example_world
     = Some (Inl ValueError, example_world)
   \<and> for_loop_prim (eval example_collaborators 1) example_interpreter
      (VInt 0) (VInt 0) (VInt 0) [VInt 7] example_body (Slice (Some 0) (Some 0))
      (Slice (Some 0) None) example_world
     \<noteq> Some (Inr [VInt 7], example_world)"
  by (simp add: for_loop_prim_def py_range_def)

text \<open>
  C2, amended: for every start, stop and step other than zero, the handler of the
  bounded loop is the classical iteration of the spec: for \<open>i\<close> from \<open>start\<close> to
  \<open>stop\<close> (exclusive) in steps of \<open>step\<close> it evaluates the body in a child frame on
  \<open>(constants, i, *carried)\<close> and carries the outputs on, and it returns the carried
  values of the last iteration.  A range without iterations returns the initial carried
  arguments and leaves the world, the key included, as it is.  With a step of zero the
  handler raises \<open>ValueError\<close> before any iteration.
\<close>

theorem for_loop_classical_iteration:
  "(step \<noteq> 0 \<longrightarrow>
      for_loop_prim ev self (VInt start) (VInt stop) (VInt step) invals body cs asl w =
        spec_bounded_loop ev self body (py_slice invals cs) start stop step
          (py_slice invals asl) w)
   \<and> (step \<noteq> 0 \<and> \<not> ((0 < step \<and> start < stop) \<or> (step < 0 \<and> stop < start)) \<longrightarrow>
        for_loop_prim ev self (VInt start) (VInt stop) (VInt step) invals body cs asl w =
          Some (Inr (py_slice invals asl), w))
   \<and> for_loop_prim ev self (VInt start) (VInt stop) (VInt 0) invals body cs asl w =
        Some (Inl ValueError, w)"
proof (intro conjI impI)
  assume "step \<noteq> 0"
  then show "for_loop_prim ev self (VInt start) (VInt stop) (VInt step) invals body cs asl w =
        spec_bounded_loop ev self body (py_slice invals cs) start stop step
          (py_slice invals asl) w"
    by (simp add: for_loop_prim_def py_range_def Let_def for_loop_iter_spec)
next
  assume "step \<noteq> 0 \<and> \<not> ((0 < step \<and> start < stop) \<or> (step < 0 \<and> stop < start))"
  then show "for_loop_prim ev self (VInt start) (VInt stop) (VInt step) invals body cs asl w =
          Some (Inr (py_slice invals asl), w)"
    by (simp add: for_loop_prim_def py_range_def Let_def range_length_empty)
next
  show "for_loop_prim ev self (VInt start) (VInt stop) (VInt 0) invals body cs asl w =
        Some (Inl ValueError, w)"
    by (simp add: for_loop_prim_def py_range_def Let_def)
qed

theorem for_loop_classical_iteration_witness:
  "for_loop_prim (eval example_collaborators 1) example_interpreter
      (VInt 0) (VInt 2) (VInt 1) [VInt 7] example_body (Slice (Some 0) (Some 0))
      (Slice (Some 0) None) example_world
     = spec_bounded_loop (eval example_collaborators 1) example_interpreter example_body
         [] 0 2 1 [VInt 7] example_world
   \<and> spec_bounded_loop (eval example_collaborators 1) example_interpreter example_body
         [] 0 2 1 [VInt 7] example_world
     = Some (Inr [VInt 7], \<lparr>heap = [\<lparr>box_state = 2, box_key = 5\<rparr>], capture_enabled = True\<rparr>)
   \<and> for_loop_prim (eval example_collaborators 1) example_interpreter
      (VInt 3) (VInt 3) (VInt 1) [VInt 7] example_body (Slice (Some 0) (Some 0))
      (Slice (Some 0) None) example_world
     = Some (Inr [VInt 7], example_world)"
  using for_loop_classical_iteration
      [of 1 "eval example_collaborators 1" example_interpreter 0 2 "[VInt 7]" example_body
        "Slice (Some 0) (Some 0)" "Slice (Some 0) None" example_world]
    for_loop_classical_iteration
      [of 1 "eval example_collaborators 1" example_interpreter 3 3 "[VInt 7]" example_body
        "Slice (Some 0) (Some 0)" "Slice (Some 0) None" example_world]
    example_spec_loop
  by simp

text \<open>
  C3: the execution state is created lazily, exactly once per top-level invocation, and
  on completion it is detached and the final key, not the final state, is kept as the
  seed of the next invocation.  \<open>setup\<close> allocates a dictionary with the initial state
  and \<open>initial_key\<close> when \<open>stateref\<close> is \<open>None\<close>, and does nothing when a reference is
  present, as it is in the copy a child frame runs on.  A top-level evaluation that
  starts without a reference and completes has allocated exactly one dictionary,
  whatever the nesting of its frames, and has left the older dictionaries as they were;
  the interpreter object it leaves has no reference, reads no state, and its
  \<open>initial_key\<close> is the key the dictionary held at the end, so that the next set-up
  starts from the initial state and that key.
\<close>

theorem box_lifecycle:
  "(stateref self = None \<longrightarrow>
      setup_box co self w =
        (self\<lparr>stateref := Some (length (heap w))\<rparr>,
         w\<lparr>heap := heap w @
            [\<lparr>box_state = create_initial_state co (num_wires self),
              box_key = initial_key self\<rparr>]\<rparr>))
   \<and> (stateref self = Some a \<longrightarrow>
        setup_box co self w = (self, w) \<and> setup_box co (py_copy self) w = (py_copy self, w))
   \<and> (stateref self = None \<and> eval co n self jaxpr cs0 args w = Some (Inr outs, self', w') \<longrightarrow>
        length (heap w') = Suc (length (heap w))
        \<and> take (length (heap w)) (heap w') = heap w
        \<and> self' = self\<lparr>initial_key := box_key (last (heap w')), stateref := None\<rparr>
        \<and> state_getter self' w' = Inr None
        \<and> setup_box co self' w' =
            (self'\<lparr>stateref := Some (length (heap w'))\<rparr>,
             w'\<lparr>heap := heap w' @
                [\<lparr>box_state = create_initial_state co (num_wires self),
                  box_key = box_key (last (heap w'))\<rparr>]\<rparr>))"
proof (intro conjI impI)
  assume "stateref self = None"
  then show "setup_box co self w =
        (self\<lparr>stateref := Some (length (heap w))\<rparr>,
         w\<lparr>heap := heap w @
            [\<lparr>box_state = create_initial_state co (num_wires self),
              box_key = initial_key self\<rparr>]\<rparr>)"
    by (rule setup_box_absent)
next
  assume "stateref self = Some a"
  then show "setup_box co self w = (self, w)"
    by (rule setup_box_present)
next
  assume "stateref self = Some a"
  then show "setup_box co (py_copy self) w = (py_copy self, w)"
    by (simp add: setup_box_present py_copy_stateref)
next
  assume h: "stateref self = None \<and> eval co n self jaxpr cs0 args w = Some (Inr outs, self', w')"
  then have top: "length (heap w') = Suc (length (heap w))
     \<and> take (length (heap w)) (heap w') = heap w
     \<and> self' = self\<lparr>initial_key := box_key (last (heap w')), stateref := None\<rparr>"
    using eval_top_level by blast
  from top show "length (heap w') = Suc (length (heap w))" by simp
  from top show "take (length (heap w)) (heap w') = heap w" by simp
  from top show s': "self' = self\<lparr>initial_key := box_key (last (heap w')), stateref := None\<rparr>"
    by simp
  from s' show "state_getter self' w' = Inr None"
    by (simp add: state_getter_def)
  from s' show "setup_box co self' w' =
            (self'\<lparr>stateref := Some (length (heap w'))\<rparr>,
             w'\<lparr>heap := heap w' @
                [\<lparr>box_state = create_initial_state co (num_wires self),
                  box_key = box_key (last (heap w'))\<rparr>]\<rparr>)"
    by (simp add: setup_box_def)
qed

theorem box_lifecycle_witness:
  "stateref example_top_interpreter = None
   \<and> eval example_collaborators 2 example_top_interpreter example_program [] [VInt 7]
        \<lparr>heap = [], capture_enabled = True\<rparr>
      = Some (Inr [VInt 0, VInt 7],
          \<lparr>num_wires = 2, shots = None, initial_key = 11, stateref = None\<rparr>,
          \<lparr>heap = [\<lparr>box_state = 12, box_key = 11\<rparr>], capture_enabled = True\<rparr>)
   \<and> setup_box example_collaborators
        \<lparr>num_wires = 2, shots = None, initial_key = 11, stateref = None\<rparr>
        \<lparr>heap = [\<lparr>box_state = 12, box_key = 11\<rparr>], capture_enabled = True\<rparr>
      = (\<lparr>num_wires = 2, shots = None, initial_key = 11, stateref = Some 1\<rparr>,
         \<lparr>heap = [\<lparr>box_state = 12, box_key = 11\<rparr>, \<lparr>box_state = 0, box_key = 11\<rparr>],
          capture_enabled = True\<rparr>)"
proof -
  have s: "stateref example_top_interpreter = None"
    by (simp add: example_top_interpreter_def)
  note run = example_top_level_run
  from box_lifecycle
    [of example_top_interpreter example_collaborators "\<lparr>heap = [], capture_enabled = True\<rparr>"
      0 2 example_program "[]" "[VInt 7]" "[VInt 0, VInt 7]"
      "\<lparr>num_wires = 2, shots = None, initial_key = 11, stateref = None\<rparr>"
      "\<lparr>heap = [\<lparr>box_state = 12, box_key = 11\<rparr>], capture_enabled = True\<rparr>"] s run
  show ?thesis
    by (simp add: example_collaborators_def example_top_interpreter_def)
qed

text \<open>
  C4: a mid-computation measurement splits the key of the execution state in two, stores
  the first half as the new key and hands the second to \<open>apply_operation\<close>, which
  samples the outcome and projects the state; the outcome it recorded is the equation's
  output.  Two measurements in a row: the second splits the key the first one stored,
  so the stream advances once per draw, the key that was drawn from is never stored and
  the stored key is only ever split.  The outcomes are those the collaborator computes
  from the state and the keys \<open>d1\<close>, \<open>d2\<close>, whatever else the world holds, so the same
  seed gives the same outcomes.  That the two keys drawn from differ is a property of
  the splitting function: it holds when the second half is an injective function of the
  key that is split and the first half differs from it.
\<close>

theorem mid_measurements_split_key:
  assumes "stateref self = Some a" "a < length (heap w)"
    and "heap w ! a = \<lparr>box_state = s, box_key = k\<rparr>"
    and "random_split co k = (k1, d1)"
    and "apply_mid_measure co (MidMeasureMP iv1 r1 p1) (Some s) d1 = Inr (s1, m1)"
    and "m1 (MidMeasureMP iv1 r1 p1) = Some o1"
    and "random_split co k1 = (k2, d2)"
    and "apply_mid_measure co (MidMeasureMP iv2 r2 p2) (Some s1) d2 = Inr (s2, m2)"
    and "m2 (MidMeasureMP iv2 r2 p2) = Some o2"
  shows "measure_prim co self iv1 r1 p1 w =
           (Inr o1, w\<lparr>heap := (heap w)[a := \<lparr>box_state = s1, box_key = k1\<rparr>]\<rparr>)
     \<and> measure_prim co self iv2 r2 p2
           (w\<lparr>heap := (heap w)[a := \<lparr>box_state = s1, box_key = k1\<rparr>]\<rparr>) =
           (Inr o2, w\<lparr>heap := (heap w)[a := \<lparr>box_state = s2, box_key = k2\<rparr>]\<rparr>)
     \<and> (inj (\<lambda>x. snd (random_split co x)) \<and> k1 \<noteq> k \<longrightarrow> d1 \<noteq> d2)"
proof (intro conjI impI)
  show "measure_prim co self iv1 r1 p1 w =
           (Inr o1, w\<lparr>heap := (heap w)[a := \<lparr>box_state = s1, box_key = k1\<rparr>]\<rparr>)"
    using assms(1-6) by (rule measure_prim_box)
next
  let ?w1 = "w\<lparr>heap := (heap w)[a := \<lparr>box_state = s1, box_key = k1\<rparr>]\<rparr>"
  have "measure_prim co self iv2 r2 p2 ?w1 =
      (Inr o2, ?w1\<lparr>heap := (heap ?w1)[a := \<lparr>box_state = s2, box_key = k2\<rparr>]\<rparr>)"
    using assms(1,2,7,8,9)
      measure_prim_box [of self a ?w1 s1 k1 co k2 d2 iv2 r2 p2 s2 m2 o2]
    by simp
  then show "measure_prim co self iv2 r2 p2 ?w1 =
      (Inr o2, w\<lparr>heap := (heap w)[a := \<lparr>box_state = s2, box_key = k2\<rparr>]\<rparr>)"
    by simp
next
  assume h: "inj (\<lambda>x. snd (random_split co x)) \<and> k1 \<noteq> k"
  show "d1 \<noteq> d2"
  proof
    assume "d1 = d2"
    with assms(4,7) have "snd (random_split co k) = snd (random_split co k1)" by simp
    with h have "k = k1" by (auto dest: injD)
    with h show False by simp
  qed
qed

theorem mid_measurements_split_key_witness:
  "measure_prim example_collaborators example_interpreter [VInt 0] False None example_world =
     (Inr (VInt 0), \<lparr>heap = [\<lparr>box_state = 10, box_key = 11\<rparr>], capture_enabled = True\<rparr>)
   \<and> measure_prim example_collaborators example_interpreter [VInt 1] False None
       \<lparr>heap = [\<lparr>box_state = 10, box_key = 11\<rparr>], capture_enabled = True\<rparr> =
     (Inr (VInt 0), \<lparr>heap = [\<lparr>box_state = 20, box_key = 23\<rparr>], capture_enabled = True\<rparr>)
   \<and> random_split example_collaborators 5 = (11, 12)
   \<and> random_split example_collaborators 11 = (23, 24)
   \<and> inj (\<lambda>x. snd (random_split example_collaborators x))
   \<and> (12::nat) \<noteq> 24"
proof -
  let ?mp1 = "MidMeasureMP [VInt 0] False None"
  let ?mp2 = "MidMeasureMP [VInt 1] False None"
  have h1: "stateref example_interpreter = Some 0"
    by (simp add: example_interpreter_def)
  have h2: "0 < length (heap example_world)"
    by (simp add: example_world_def)
  have h3: "heap example_world ! 0 = \<lparr>box_state = 0, box_key = 5\<rparr>"
    by (simp add: example_world_def)
  have h4: "random_split example_collaborators 5 = (11, 12)"
    by (simp add: example_collaborators_def)
  have h5: "apply_mid_measure example_collaborators ?mp1 (Some 0) 12
      = Inr (10, [?mp1 \<mapsto> VInt 0])"
    by (simp add: example_collaborators_def)
  have h6: "[?mp1 \<mapsto> VInt 0] ?mp1 = Some (VInt 0)"
    by simp
  have h7: "random_split example_collaborators 11 = (23, 24)"
    by (simp add: example_collaborators_def)
  have h8: "apply_mid_measure example_collaborators ?mp2 (Some 10) 24
      = Inr (20, [?mp2 \<mapsto> VInt 0])"
    by (simp add: example_collaborators_def)
  have h9: "[?mp2 \<mapsto> VInt 0] ?mp2 = Some (VInt 0)"
    by simp
  from mid_measurements_split_key [OF h1 h2 h3 h4 h5 h6 h7 h8 h9] h4 h7 example_split_inj
  show ?thesis
    by (simp add: example_world_def)
qed

text \<open>
  C5: the handler of the conditional loop evaluates the condition in a child frame before
  each iteration.  When the condition is false it returns the current carried arguments
  and the world the condition left; it has then made no call but this one, so on the
  first check the body is not evaluated.  When the condition is true and the body
  returns, the loop goes on from the body's outputs and the world the body left.
\<close>

theorem while_loop_zero_trip:
  "(ev (py_copy self) cnd cc fn_res w = Some (Inr (c # rest), self1, w1) \<and> \<not> truthy c \<longrightarrow>
      while_loop_iter ev self body cnd cb cc fn_res w = Some (Inr fn_res, w1)
      \<and> while_loop_iter (only_call ev (py_copy self) cnd cc fn_res w) self body cnd cb cc fn_res w
          = Some (Inr fn_res, w1))
   \<and> (ev (py_copy self) cnd cc fn_res w = Some (Inr (c # rest), self1, w1) \<and> truthy c
        \<and> ev (py_copy self) body cb fn_res w1 = Some (Inr fn_res', self2, w2) \<longrightarrow>
        while_loop_iter ev self body cnd cb cc fn_res w =
          while_loop_iter ev self body cnd cb cc fn_res' w2)
   \<and> (ev (py_copy self) cnd (py_slice invals cond_slice) (py_slice invals args_slice) w
          = Some (Inr (c # rest), self1, w1) \<and> \<not> truthy c \<longrightarrow>
        while_loop_prim ev self invals body cnd body_slice cond_slice args_slice w
          = Some (Inr (py_slice invals args_slice), w1)
        \<and> while_loop_prim
            (only_call ev (py_copy self) cnd (py_slice invals cond_slice)
               (py_slice invals args_slice) w)
            self invals body cnd body_slice cond_slice args_slice w
          = Some (Inr (py_slice invals args_slice), w1))"
proof (intro conjI impI)
  assume h: "ev (py_copy self) cnd cc fn_res w = Some (Inr (c # rest), self1, w1) \<and> \<not> truthy c"
  then show "while_loop_iter ev self body cnd cb cc fn_res w = Some (Inr fn_res, w1)"
    by (blast intro: while_loop_iter_stop)
  from h have "only_call ev (py_copy self) cnd cc fn_res w (py_copy self) cnd cc fn_res w
      = Some (Inr (c # rest), self1, w1)"
    by (simp add: only_call_def)
  with h show "while_loop_iter (only_call ev (py_copy self) cnd cc fn_res w) self body cnd cb cc
      fn_res w = Some (Inr fn_res, w1)"
    by (blast intro: while_loop_iter_stop)
next
  assume "ev (py_copy self) cnd cc fn_res w = Some (Inr (c # rest), self1, w1) \<and> truthy c
        \<and> ev (py_copy self) body cb fn_res w1 = Some (Inr fn_res', self2, w2)"
  then show "while_loop_iter ev self body cnd cb cc fn_res w =
          while_loop_iter ev self body cnd cb cc fn_res' w2"
    by (blast intro: while_loop_iter_step)
next
  assume h: "ev (py_copy self) cnd (py_slice invals cond_slice) (py_slice invals args_slice) w
          = Some (Inr (c # rest), self1, w1) \<and> \<not> truthy c"
  then show "while_loop_prim ev self invals body cnd body_slice cond_slice args_slice w
          = Some (Inr (py_slice invals args_slice), w1)"
    by (simp add: while_loop_prim_def Let_def while_loop_iter_stop)
  from h have "only_call ev (py_copy self) cnd (py_slice invals cond_slice)
        (py_slice invals args_slice) w (py_copy self) cnd (py_slice invals cond_slice)
        (py_slice invals args_slice) w
      = Some (Inr (c # rest), self1, w1)"
    by (simp add: only_call_def)
  with h show "while_loop_prim
            (only_call ev (py_copy self) cnd (py_slice invals cond_slice)
               (py_slice invals args_slice) w)
            self invals body cnd body_slice cond_slice args_slice w
          = Some (Inr (py_slice invals args_slice), w1)"
    by (simp add: while_loop_prim_def Let_def while_loop_iter_stop)
qed

theorem while_loop_zero_trip_witness:
  "eval example_collaborators 1 (py_copy example_interpreter) example_cond
      (py_slice [VBool False] (Slice (Some 0) (Some 0)))
      (py_slice [VBool False] (Slice (Some 0) None)) example_world
     = Some (Inr [VBool False],
         \<lparr>num_wires = 2, shots = None, initial_key = 5, stateref = None\<rparr>, example_world)
   \<and> \<not> truthy (VBool False)
   \<and> while_loop_prim (eval example_collaborators 1) example_interpreter [VBool False]
        example_while_body example_cond (Slice (Some 0) (Some 0)) (Slice (Some 0) (Some 0))
        (Slice (Some 0) None) example_world
     = Some (Inr [VBool False], example_world)
   \<and> while_loop_prim (eval example_collaborators 1) example_interpreter [VBool True]
        example_while_body example_cond (Slice (Some 0) (Some 0)) (Slice (Some 0) (Some 0))
        (Slice (Some 0) None) example_world
     = Some (Inr [VBool False],
         \<lparr>heap = [\<lparr>box_state = 1, box_key = 5\<rparr>], capture_enabled = True\<rparr>)"
proof -
  have c: "eval example_collaborators 1 (py_copy example_interpreter) example_cond
      (py_slice [VBool False] (Slice (Some 0) (Some 0)))
      (py_slice [VBool False] (Slice (Some 0) None)) example_world
     = Some (Inr [VBool False],
         \<lparr>num_wires = 2, shots = None, initial_key = 5, stateref = None\<rparr>, example_world)"
    using example_cond_false by simp
  have f: "\<not> truthy (VBool False)"
    by simp
  from while_loop_zero_trip
    [of "eval example_collaborators 1" example_interpreter example_cond "[]" "[VBool False]"
      example_world "VBool False" "[]"
      "\<lparr>num_wires = 2, shots = None, initial_key = 5, stateref = None\<rparr>" example_world
      example_while_body "[]" "[]" _ _ "[VBool False]" "Slice (Some 0) (Some 0)"
      "Slice (Some 0) None" "Slice (Some 0) (Some 0)"]
    c f example_while_once
  show ?thesis by simp
qed

text \<open>
  C6: the handler of the multi-way branch evaluates the first branch whose predicate is
  true and whose body is present, in a child frame on its constants and the shared
  arguments, and returns its outputs; it evaluates no other branch, and when there is no
  such branch it returns the empty tuple and leaves the world as it is.
\<close>

theorem cond_first_true_branch:
  "cond_prim ev self invals jaxpr_branches consts_slices args_slice w =
     (case spec_selected_branch
             (zip (take (length jaxpr_branches) invals) (zip jaxpr_branches consts_slices)) of
        None \<Rightarrow> Some (Inr [], w)
      | Some (jaxpr, const_slice) \<Rightarrow>
          (case ev (py_copy self) jaxpr (py_slice invals const_slice)
                  (py_slice invals args_slice) w of
             None \<Rightarrow> None
           | Some (r, _, w') \<Rightarrow> Some (r, w')))"
  by (simp add: cond_prim_def Let_def cond_branches_selected)

theorem cond_first_true_branch_witness:
  "cond_prim (eval example_collaborators 1) example_interpreter
      [VBool False, VBool True, VBool True, VInt 7]
      [Some example_branch, Some example_while_body, Some example_branch]
      [Slice (Some 0) (Some 0), Slice (Some 0) (Some 0), Slice (Some 0) (Some 0)]
      (Slice (Some 3) None) example_world
     = Some (Inr [VBool False],
         \<lparr>heap = [\<lparr>box_state = 1, box_key = 5\<rparr>], capture_enabled = True\<rparr>)
   \<and> cond_prim (eval example_collaborators 1) example_interpreter
      [VBool False, VBool False, VInt 7]
      [Some example_branch, Some example_while_body]
      [Slice (Some 0) (Some 0), Slice (Some 0) (Some 0)]
      (Slice (Some 2) None) example_world
     = Some (Inr [], example_world)
   \<and> cond_prim (eval example_collaborators 1) example_interpreter
      [VBool True, VBool True, VInt 7]
      [None, Some example_while_body]
      [Slice (Some 0) (Some 0), Slice (Some 0) (Some 0)]
      (Slice (Some 2) None) example_world
     = Some (Inr [VBool False],
         \<lparr>heap = [\<lparr>box_state = 1, box_key = 5\<rparr>], capture_enabled = True\<rparr>)"
proof -
  have e: "eval example_collaborators 1 (py_copy example_interpreter) example_while_body []
      [VInt 7] example_world
     = Some (Inr [VBool False],
         \<lparr>num_wires = 2, shots = None, initial_key = 5, stateref = None\<rparr>,
         \<lparr>heap = [\<lparr>box_state = 1, box_key = 5\<rparr>], capture_enabled = True\<rparr>)"
    by code_simp
  show ?thesis
    using e
      cond_first_true_branch
        [of "eval example_collaborators 1" example_interpreter
          "[VBool False, VBool True, VBool True, VInt 7]"
          "[Some example_branch, Some example_while_body, Some example_branch]"
          "[Slice (Some 0) (Some 0), Slice (Some 0) (Some 0), Slice (Some 0) (Some 0)]"
          "Slice (Some 3) None" example_world]
      cond_first_true_branch
        [of "eval example_collaborators 1" example_interpreter
          "[VBool False, VBool False, VInt 7]"
          "[Some example_branch, Some example_while_body]"
          "[Slice (Some 0) (Some 0), Slice (Some 0) (Some 0)]"
          "Slice (Some 2) None" example_world]
      cond_first_true_branch
        [of "eval example_collaborators 1" example_interpreter
          "[VBool True, VBool True, VInt 7]"
          "[None, Some example_while_body]"
          "[Slice (Some 0) (Some 0), Slice (Some 0) (Some 0)]"
          "Slice (Some 2) None" example_world]
    by simp
qed

text \<open>
  C7: the terminal measurement handler chooses its mode from \<open>shots\<close> alone.  Without
  shots it leaves the store as it is, the key included, and its result is what
  \<open>measure\<close> computes from the current state.  With shots it splits the key, stores the
  first half and calls \<open>measure_with_samples\<close> on the one measurement with the second
  half; a second measurement splits the stored key again and draws its own samples.
\<close>

theorem terminal_measurement_modes:
  "(shots self = None \<longrightarrow> heap (snd (interpret_measurement co self m w)) = heap w)
   \<and> (shots self = None \<and> stateref self = Some a \<and> a < length (heap w) \<longrightarrow>
        interpret_measurement co self m w =
          (measure_mp co False m (Some (box_state (heap w ! a))), enable w))
   \<and> (shots self = Some n \<and> stateref self = Some a \<and> a < length (heap w)
        \<and> heap w ! a = \<lparr>box_state = s, box_key = k\<rparr>
        \<and> random_split co k = (k1, d1) \<and> random_split co k1 = (k2, d2) \<longrightarrow>
        interpret_measurement co self m w =
          (case measure_with_samples co False [m] (Some s) n d1 of
             Inl e \<Rightarrow> Inl e
           | Inr [] \<Rightarrow> Inl IndexError
           | Inr (output # _) \<Rightarrow> Inr output,
           enable (w\<lparr>heap := (heap w)[a := \<lparr>box_state = s, box_key = k1\<rparr>]\<rparr>))
        \<and> interpret_measurement co self m'
            (enable (w\<lparr>heap := (heap w)[a := \<lparr>box_state = s, box_key = k1\<rparr>]\<rparr>)) =
          (case measure_with_samples co False [m'] (Some s) n d2 of
             Inl e \<Rightarrow> Inl e
           | Inr [] \<Rightarrow> Inl IndexError
           | Inr (output # _) \<Rightarrow> Inr output,
           enable (w\<lparr>heap := (heap w)[a := \<lparr>box_state = s, box_key = k2\<rparr>]\<rparr>)))"
proof (intro conjI impI)
  assume "shots self = None"
  then show "heap (snd (interpret_measurement co self m w)) = heap w"
    by (rule interpret_measurement_analytic_heap)
next
  assume "shots self = None \<and> stateref self = Some a \<and> a < length (heap w)"
  then show "interpret_measurement co self m w =
          (measure_mp co False m (Some (box_state (heap w ! a))), enable w)"
    by (simp add: interpret_measurement_analytic)
next
  assume h: "shots self = Some n \<and> stateref self = Some a \<and> a < length (heap w)
        \<and> heap w ! a = \<lparr>box_state = s, box_key = k\<rparr>
        \<and> random_split co k = (k1, d1) \<and> random_split co k1 = (k2, d2)"
  then show "interpret_measurement co self m w =
          (case measure_with_samples co False [m] (Some s) n d1 of
             Inl e \<Rightarrow> Inl e
           | Inr [] \<Rightarrow> Inl IndexError
           | Inr (output # _) \<Rightarrow> Inr output,
           enable (w\<lparr>heap := (heap w)[a := \<lparr>box_state = s, box_key = k1\<rparr>]\<rparr>))"
    by (simp add: interpret_measurement_shots)
  let ?w1 = "enable (w\<lparr>heap := (heap w)[a := \<lparr>box_state = s, box_key = k1\<rparr>]\<rparr>)"
  from h have "interpret_measurement co self m' ?w1 =
          (case measure_with_samples co False [m'] (Some s) n d2 of
             Inl e \<Rightarrow> Inl e
           | Inr [] \<Rightarrow> Inl IndexError
           | Inr (output # _) \<Rightarrow> Inr output,
           enable (?w1\<lparr>heap := (heap ?w1)[a := \<lparr>box_state = s, box_key = k2\<rparr>]\<rparr>))"
    using interpret_measurement_shots [of self n a ?w1 s k1 co k2 d2 m']
    by (simp add: enable_def)
  then show "interpret_measurement co self m' ?w1 =
          (case measure_with_samples co False [m'] (Some s) n d2 of
             Inl e \<Rightarrow> Inl e
           | Inr [] \<Rightarrow> Inl IndexError
           | Inr (output # _) \<Rightarrow> Inr output,
           enable (w\<lparr>heap := (heap w)[a := \<lparr>box_state = s, box_key = k2\<rparr>]\<rparr>))"
    by (simp add: enable_def)
qed

theorem terminal_measurement_modes_witness:
  "shots example_interpreter = None
   \<and> interpret_measurement example_collaborators example_interpreter (Measurement ''expval'' [])
        example_world = (Inr (VInt 0), example_world)
   \<and> shots example_shots_interpreter = Some 3
   \<and> random_split example_collaborators 5 = (11, 12)
   \<and> random_split example_collaborators 11 = (23, 24)
   \<and> interpret_measurement example_collaborators example_shots_interpreter
        (Measurement ''sample'' []) example_world
       = (Inr (VInt 15), \<lparr>heap = [\<lparr>box_state = 0, box_key = 11\<rparr>], capture_enabled = True\<rparr>)
   \<and> interpret_measurement example_collaborators example_shots_interpreter
        (Measurement ''counts'' [])
        \<lparr>heap = [\<lparr>box_state = 0, box_key = 11\<rparr>], capture_enabled = True\<rparr>
       = (Inr (VInt 27), \<lparr>heap = [\<lparr>box_state = 0, box_key = 23\<rparr>], capture_enabled = True\<rparr>)"
proof -
  have a1: "shots example_interpreter = None \<and> stateref example_interpreter = Some 0
      \<and> 0 < length (heap example_world)"
    by (simp add: example_interpreter_def example_world_def)
  have s1: "shots example_shots_interpreter = Some 3
      \<and> stateref example_shots_interpreter = Some 0
      \<and> 0 < length (heap example_world)
      \<and> heap example_world ! 0 = \<lparr>box_state = 0, box_key = 5\<rparr>
      \<and> random_split example_collaborators 5 = (11, 12)
      \<and> random_split example_collaborators 11 = (23, 24)"
    by (simp add: example_shots_interpreter_def example_world_def example_collaborators_simps)
  from terminal_measurement_modes
    [of example_interpreter example_collaborators "Measurement ''expval'' []" example_world 0]
    a1
  have analytic: "interpret_measurement example_collaborators example_interpreter
      (Measurement ''expval'' []) example_world = (Inr (VInt 0), example_world)"
    by (simp add: example_collaborators_simps example_world_def enable_def)
  from terminal_measurement_modes
    [of example_shots_interpreter example_collaborators "Measurement ''sample'' []" example_world
      0 3 0 5 11 12 23 24 "Measurement ''counts'' []"]
    s1
  have sampled: "interpret_measurement example_collaborators example_shots_interpreter
        (Measurement ''sample'' []) example_world
       = (Inr (VInt 15), \<lparr>heap = [\<lparr>box_state = 0, box_key = 11\<rparr>], capture_enabled = True\<rparr>)
     \<and> interpret_measurement example_collaborators example_shots_interpreter
        (Measurement ''counts'' [])
        \<lparr>heap = [\<lparr>box_state = 0, box_key = 11\<rparr>], capture_enabled = True\<rparr>
       = (Inr (VInt 27), \<lparr>heap = [\<lparr>box_state = 0, box_key = 23\<rparr>], capture_enabled = True\<rparr>)"
    by (simp add: example_collaborators_simps example_world_def enable_def)
  from a1 s1 analytic sampled show ?thesis by simp
qed

text \<open>
  C8: capture is disabled while a terminal measurement is computed and enabled again
  afterwards on every exit path.  Whatever \<open>interpret_measurement\<close> returns, a value or
  an exception, capture is enabled in the world it leaves; its result is the result of
  the \<open>try\<close> block run with capture disabled; and the collaborators only ever see
  capture disabled, so that replacing what they do while capture is enabled changes
  nothing.
\<close>

theorem capture_reenabled:
  "capture_enabled (snd (interpret_measurement co self m w))
   \<and> fst (interpret_measurement co self m w) = fst (interpret_measurement_try co self m (disable w))
   \<and> \<not> capture_enabled (disable w)
   \<and> interpret_measurement co self m w =
       interpret_measurement
         (co\<lparr>measure_mp := \<lambda>c. measure_mp co False,
             measure_with_samples := \<lambda>c. measure_with_samples co False\<rparr>) self m w"
proof -
  have "capture_enabled (snd (interpret_measurement co self m w))"
    by (simp add: interpret_measurement_def enable_def split: prod.splits)
  moreover have "fst (interpret_measurement co self m w) =
      fst (interpret_measurement_try co self m (disable w))"
    by (simp add: interpret_measurement_def split: prod.splits)
  moreover have "\<not> capture_enabled (disable w)"
    by (simp add: disable_def)
  moreover have "interpret_measurement_try co self m (disable w) =
      interpret_measurement_try
        (co\<lparr>measure_mp := \<lambda>c. measure_mp co False,
            measure_with_samples := \<lambda>c. measure_with_samples co False\<rparr>) self m (disable w)"
    by (auto simp: interpret_measurement_try_def disable_def key_setter_def lookup_box_def
        split: option.splits sum.splits prod.splits list.splits)
  ultimately show ?thesis
    by (simp add: interpret_measurement_def)
qed

theorem capture_reenabled_witness:
  "interpret_measurement example_collaborators example_top_interpreter (Measurement ''expval'' [])
      \<lparr>heap = [], capture_enabled = False\<rparr>
     = (Inl TypeError, \<lparr>heap = [], capture_enabled = True\<rparr>)
   \<and> capture_enabled (snd (interpret_measurement example_collaborators example_top_interpreter
        (Measurement ''expval'' []) \<lparr>heap = [], capture_enabled = False\<rparr>))
   \<and> interpret_measurement example_collaborators example_interpreter (Measurement ''expval'' [])
        example_world = (Inr (VInt 0), example_world)
   \<and> capture_enabled (snd (interpret_measurement example_collaborators example_interpreter
        (Measurement ''expval'' []) example_world))"
  using capture_reenabled
      [of example_collaborators example_top_interpreter "Measurement ''expval'' []"
        "\<lparr>heap = [], capture_enabled = False\<rparr>"]
    capture_reenabled
      [of example_collaborators example_interpreter "Measurement ''expval'' []" example_world]
  by (simp add: interpret_measurement_def interpret_measurement_try_def enable_def disable_def
      state_getter_def lookup_box_def example_collaborators_simps example_top_interpreter_def
      example_interpreter_def example_world_def)

text \<open>
  C9, as stated: whenever \<open>stateref\<close> is \<open>None\<close>, every access or mutation of the state
  or the key fails with an error.  The getters do not: reading the state answers
  \<open>None\<close> and reading the key answers \<open>initial_key\<close>.
\<close>

theorem getters_without_box_counterexample:
  "state_getter \<lparr>num_wires = 1, shots = None, initial_key = (7::nat), stateref = None\<rparr>
       (\<lparr>heap = [], capture_enabled = True\<rparr> :: (nat, nat) world) = Inr None
   \<and> key_getter \<lparr>num_wires = 1, shots = None, initial_key = (7::nat), stateref = None\<rparr>
       (\<lparr>heap = [], capture_enabled = True\<rparr> :: (nat, nat) world) = Inr 7"
  by (simp add: state_getter_def key_getter_def)

text \<open>
  C9, amended: while \<open>stateref\<close> is \<open>None\<close>, every mutation of the state or the key
  raises \<open>AttributeError\<close> and changes nothing; reading the state returns \<open>None\<close> and
  reading the key returns \<open>initial_key\<close>.
\<close>

theorem access_without_box:
  "stateref self = None \<Longrightarrow>
     state_setter self v w = (Inl AttributeError, w)
   \<and> key_setter self k w = (Inl AttributeError, w)
   \<and> state_getter self w = Inr None
   \<and> key_getter self w = Inr (initial_key self)"
  by (simp add: state_setter_def key_setter_def state_getter_def key_getter_def)

theorem access_without_box_witness:
  "stateref \<lparr>num_wires = 1, shots = None, initial_key = (7::nat), stateref = None\<rparr> = None
   \<and> state_setter \<lparr>num_wires = 1, shots = None, initial_key = (7::nat), stateref = None\<rparr> (3::nat)
        \<lparr>heap = [], capture_enabled = True\<rparr>
       = (Inl AttributeError, \<lparr>heap = [], capture_enabled = True\<rparr>)
   \<and> key_setter \<lparr>num_wires = 1, shots = None, initial_key = (7::nat), stateref = None\<rparr> 5
        (\<lparr>heap = [], capture_enabled = True\<rparr> :: (nat, nat) world)
       = (Inl AttributeError, \<lparr>heap = [], capture_enabled = True\<rparr>)"
  using access_without_box
    [of "\<lparr>num_wires = 1, shots = None, initial_key = (7::nat), stateref = None\<rparr>"
        "3::nat" "\<lparr>heap = [], capture_enabled = True\<rparr>" 5]
  by simp

text \<open>
  C10: on an operator or a measurement process, outside of recording, \<open>map_wires\<close> is a
  pure structural rewrite.  It returns the input with every wire label replaced according
  to the wire map, a label the map does not mention staying as it is: the result has the
  shape of the input and its labels are the images of the input's.  The queue is
  returned unchanged; the input is a value and cannot be changed.
\<close>

theorem map_wires_pure_rewrite:
  "(\<not> recording qm q \<longrightarrow>
      map_wires qm input wire_map queue replace q = (object_map_wires wire_map input, q))
   \<and> object_map_wires wire_map input = map_qobject (relabel wire_map) input
   \<and> map_qobject (\<lambda>w. ()) (object_map_wires wire_map input) = map_qobject (\<lambda>w. ()) input
   \<and> set_qobject (object_map_wires wire_map input) = relabel wire_map ` set_qobject input
   \<and> (wire_map x = Some y \<longrightarrow> relabel wire_map x = y)
   \<and> (wire_map x = None \<longrightarrow> relabel wire_map x = x)"
  by (simp add: map_wires_def object_map_wires_map qobject.map_comp qobject.set_map o_def
      relabel_def)

theorem map_wires_pure_rewrite_witness:
  "\<not> recording example_queuing (False, [])
   \<and> map_wires example_queuing (Op example_operator) [0 \<mapsto> 3, 1 \<mapsto> 2, 2 \<mapsto> 1, 3 \<mapsto> 0]
        False False (False, [])
     = (Op (Operator ''Sum'' [3, 2, 1, 0]
          [Operator ''RX(0.54)'' [3] [], Operator ''PauliX'' [2] [],
           Operator ''Prod'' [1, 0] [Operator ''PauliZ'' [1] [], Operator ''RY(1.23)'' [0] []]]),
        (False, []))"
  using map_wires_pure_rewrite
    [of example_queuing "(False, [])" "Op example_operator"
      "[0 \<mapsto> 3, 1 \<mapsto> 2, 2 \<mapsto> 1, 3 \<mapsto> 0]" False False]
  by (simp add: example_queuing_def example_operator_def relabel_def)

end
